theory Spec2Isabelle
  imports Complex_Main "HOL-Library.Log_Nat"
begin

section \<open>Values and errors\<close>

text \<open>
  JavaScript numbers are IEEE doubles. Finite doubles are idealised as real numbers
  with exact arithmetic (no rounding, no overflow). The integrator, the Arias
  intensity, the FFT, the filter and the site frequency are modelled on arrays of
  finite numbers, which are lists of reals; the bracketed duration and the response
  spectrum, where \<open>NaN\<close> and the infinities matter, on lists of \<open>jsnum\<close> (below).
  Where the rounding itself matters, for the round trip through the transform and its
  inverse, the FFT of \<open>utils.js\<close> is modelled a second time with every operation
  rounded to a double (section \<open>FFT in double precision\<close>).
  A thrown exception is the left summand of the result.

  Functions keep their source names. A plain name is a function of
  \<open>signal_processing/utils.js\<close>; the prefix \<open>sp_\<close> marks a method of the class
  \<open>SignalProcessor\<close> in \<open>scripts/processWithMatlab.js\<close>, \<open>gui_\<close> a method of
  \<open>gui/earthquakeAnalysis.js\<close>, \<open>an_\<close> a method of the analysis module
  (\<open>analysis.js\<close>, class \<open>EarthquakeAnalyzer\<close>) and \<open>filters_\<close> a function of
  \<open>signal_processing/filters.js\<close>.
\<close>

datatype js_error =
    TypeError            \<comment> \<open>property read on \<open>undefined\<close>\<close>
  | Error string         \<comment> \<open>\<open>throw new Error(message)\<close>\<close>
  | SparseArray          \<comment> \<open>model-only marker, see \<open>fftCombine\<close>; shown unreachable\<close>

section \<open>Integrator\<close>

text \<open>
  \<open>cumtrapz(x, y)\<close> of \<open>utils.js\<close>. \<open>new Array(x.length)\<close> followed by
  \<open>result[0] = 0\<close> and the writes \<open>result[i]\<close> for \<open>i = 1, 2, ...\<close> in order:
  the array is modelled by its written prefix, every write landing at the current
  length. The write \<open>result[0] = 0\<close> happens for an empty \<open>x\<close> as well.
\<close>

fun cumtrapz_loop :: "real list \<Rightarrow> real list \<Rightarrow> nat list \<Rightarrow> real list \<Rightarrow> real list" where
  "cumtrapz_loop x y [] result = result"
| "cumtrapz_loop x y (i # is) result =
     (let dx = x ! i - x ! (i - 1);
          avgY = (y ! i + y ! (i - 1)) / 2
      in cumtrapz_loop x y is (result @ [result ! (i - 1) + dx * avgY]))"

definition cumtrapz :: "real list \<Rightarrow> real list \<Rightarrow> js_error + real list" where
  "cumtrapz x y =
     (if length x \<noteq> length y
      then Inl (Error ''cumtrapz: x and y must have same length'')
      else Inr (cumtrapz_loop x y [1 ..< length x] [0]))"

text \<open>
  \<open>SignalProcessor.cumtrapz(time, data)\<close> of \<open>processWithMatlab.js\<close>: the array
  starts as \<open>[0]\<close>, the loop runs to \<open>data.length\<close> and the area is
  \<open>0.5 * (data[i] + data[i-1]) * dt\<close>.
\<close>

fun sp_cumtrapz_loop :: "real list \<Rightarrow> real list \<Rightarrow> nat list \<Rightarrow> real list \<Rightarrow> real list" where
  "sp_cumtrapz_loop time data [] integrated = integrated"
| "sp_cumtrapz_loop time data (i # is) integrated =
     (let dt = time ! i - time ! (i - 1);
          area = 0.5 * (data ! i + data ! (i - 1)) * dt
      in sp_cumtrapz_loop time data is (integrated @ [integrated ! (i - 1) + area]))"

definition sp_cumtrapz :: "real list \<Rightarrow> real list \<Rightarrow> js_error + real list" where
  "sp_cumtrapz time data =
     (if length time \<noteq> length data
      then Inl (Error ''Time and data arrays must have same length'')
      else Inr (sp_cumtrapz_loop time data [1 ..< length data] [0]))"

text \<open>\<open>trapz(x, y)\<close> of \<open>utils.js\<close>.\<close>

fun trapz_loop :: "real list \<Rightarrow> real list \<Rightarrow> nat list \<Rightarrow> real \<Rightarrow> real" where
  "trapz_loop x y [] integral = integral"
| "trapz_loop x y (i # is) integral =
     (let dx = x ! i - x ! (i - 1);
          avgY = (y ! i + y ! (i - 1)) / 2
      in trapz_loop x y is (integral + dx * avgY))"

definition trapz :: "real list \<Rightarrow> real list \<Rightarrow> js_error + real" where
  "trapz x y =
     (if length x \<noteq> length y \<or> length x < 2
      then Inl (Error ''trapz: x and y must have same length and at least 2 elements'')
      else Inr (trapz_loop x y [1 ..< length x] 0))"

section \<open>Numbers that may be non-finite\<close>

text \<open>
  Where the code can divide by zero, take the maximum of an empty array or stores
  \<open>NaN\<close> itself, numbers are \<open>jsnum\<close>: a finite real, an infinity or \<open>NaN\<close>.
  The operations follow IEEE 754 on these four kinds with exact finite arithmetic.
  Signed zeros are not modelled: a zero divisor is taken as \<open>+0\<close>.
\<close>

datatype jsnum = Fin real | PInf | NInf | NaN

fun js_add :: "jsnum \<Rightarrow> jsnum \<Rightarrow> jsnum" where
  "js_add (Fin a) (Fin b) = Fin (a + b)"
| "js_add NaN _ = NaN"
| "js_add _ NaN = NaN"
| "js_add PInf NInf = NaN"
| "js_add NInf PInf = NaN"
| "js_add PInf _ = PInf"
| "js_add _ PInf = PInf"
| "js_add NInf _ = NInf"
| "js_add _ NInf = NInf"

fun js_neg :: "jsnum \<Rightarrow> jsnum" where
  "js_neg (Fin a) = Fin (- a)"
| "js_neg PInf = NInf"
| "js_neg NInf = PInf"
| "js_neg NaN = NaN"

fun js_signed_inf :: "bool \<Rightarrow> jsnum" where
  "js_signed_inf positive = (if positive then PInf else NInf)"

fun js_mul :: "jsnum \<Rightarrow> jsnum \<Rightarrow> jsnum" where
  "js_mul (Fin a) (Fin b) = Fin (a * b)"
| "js_mul NaN _ = NaN"
| "js_mul _ NaN = NaN"
| "js_mul (Fin a) PInf = (if a = 0 then NaN else js_signed_inf (0 < a))"
| "js_mul (Fin a) NInf = (if a = 0 then NaN else js_signed_inf (a < 0))"
| "js_mul PInf (Fin b) = (if b = 0 then NaN else js_signed_inf (0 < b))"
| "js_mul NInf (Fin b) = (if b = 0 then NaN else js_signed_inf (b < 0))"
| "js_mul PInf PInf = PInf"
| "js_mul NInf NInf = PInf"
| "js_mul PInf NInf = NInf"
| "js_mul NInf PInf = NInf"

fun js_div :: "jsnum \<Rightarrow> jsnum \<Rightarrow> jsnum" where
  "js_div (Fin a) (Fin b) =
     (if b = 0 then (if a = 0 then NaN else js_signed_inf (0 < a)) else Fin (a / b))"
| "js_div NaN _ = NaN"
| "js_div _ NaN = NaN"
| "js_div (Fin a) PInf = Fin 0"
| "js_div (Fin a) NInf = Fin 0"
| "js_div PInf (Fin b) = js_signed_inf (0 \<le> b)"
| "js_div NInf (Fin b) = js_signed_inf (b < 0)"
| "js_div PInf PInf = NaN"
| "js_div PInf NInf = NaN"
| "js_div NInf PInf = NaN"
| "js_div NInf NInf = NaN"

fun js_abs :: "jsnum \<Rightarrow> jsnum" where
  "js_abs (Fin a) = Fin \<bar>a\<bar>"
| "js_abs PInf = PInf"
| "js_abs NInf = PInf"
| "js_abs NaN = NaN"

instantiation jsnum :: "{plus, minus, uminus, times, inverse, abs}"
begin

definition plus_jsnum :: "jsnum \<Rightarrow> jsnum \<Rightarrow> jsnum" where
  "plus_jsnum a b = js_add a b"

definition uminus_jsnum :: "jsnum \<Rightarrow> jsnum" where
  "uminus_jsnum a = js_neg a"

definition minus_jsnum :: "jsnum \<Rightarrow> jsnum \<Rightarrow> jsnum" where
  "minus_jsnum a b = js_add a (js_neg b)"

definition times_jsnum :: "jsnum \<Rightarrow> jsnum \<Rightarrow> jsnum" where
  "times_jsnum a b = js_mul a b"

definition divide_jsnum :: "jsnum \<Rightarrow> jsnum \<Rightarrow> jsnum" where
  "divide_jsnum a b = js_div a b"

definition inverse_jsnum :: "jsnum \<Rightarrow> jsnum" where
  "inverse_jsnum a = js_div (Fin 1) a"

definition abs_jsnum :: "jsnum \<Rightarrow> jsnum" where
  "abs_jsnum a = js_abs a"

instance ..

end

text \<open>Comparisons: every comparison with \<open>NaN\<close> is false.\<close>

fun js_le :: "jsnum \<Rightarrow> jsnum \<Rightarrow> bool" where
  "js_le (Fin a) (Fin b) = (a \<le> b)"
| "js_le NaN _ = False"
| "js_le _ NaN = False"
| "js_le NInf _ = True"
| "js_le _ PInf = True"
| "js_le PInf _ = False"
| "js_le _ NInf = False"

definition js_ge :: "jsnum \<Rightarrow> jsnum \<Rightarrow> bool" where
  "js_ge a b = js_le b a"

text \<open>\<open>a === b\<close> on numbers.\<close>

definition js_eq :: "jsnum \<Rightarrow> jsnum \<Rightarrow> bool" where
  "js_eq a b = (a \<noteq> NaN \<and> b \<noteq> NaN \<and> a = b)"

fun isFinite :: "jsnum \<Rightarrow> bool" where
  "isFinite (Fin a) = True"
| "isFinite _ = False"

text \<open>\<open>Math.max(...xs)\<close>: \<open>-Infinity\<close> for no argument, \<open>NaN\<close> if any argument is.\<close>

fun js_max2 :: "jsnum \<Rightarrow> jsnum \<Rightarrow> jsnum" where
  "js_max2 NaN _ = NaN"
| "js_max2 _ NaN = NaN"
| "js_max2 a b = (if js_le a b then b else a)"

definition Math_max :: "jsnum list \<Rightarrow> jsnum" where
  "Math_max xs = foldl js_max2 NInf xs"

text \<open>A value read from an array or stored in a result field.\<close>

datatype jsvalue = Number jsnum | Null | Undefined

text \<open>\<open>xs[i]\<close>: \<open>undefined\<close> out of range.\<close>

definition js_get :: "jsnum list \<Rightarrow> int \<Rightarrow> jsvalue" where
  "js_get xs i = (if 0 \<le> i \<and> nat i < length xs then Number (xs ! nat i) else Undefined)"

text \<open>\<open>ToNumber\<close> as applied by the arithmetic operators.\<close>

fun to_number :: "jsvalue \<Rightarrow> jsnum" where
  "to_number (Number a) = a"
| "to_number Null = Fin 0"
| "to_number Undefined = NaN"

text \<open>Truthiness, as used by \<open>x || y\<close>.\<close>

fun truthy :: "jsvalue \<Rightarrow> bool" where
  "truthy (Number (Fin a)) = (a \<noteq> 0)"
| "truthy (Number NaN) = False"
| "truthy (Number _) = True"
| "truthy Null = False"
| "truthy Undefined = False"

section \<open>Bracketed duration\<close>

record bracketed =
  duration :: jsnum
  startTime :: jsvalue
  endTime :: jsvalue
  startIndex :: int
  endIndex :: int

text \<open>\<open>SignalProcessor.calculateBracketedDuration\<close> of \<open>processWithMatlab.js\<close>.\<close>

definition sp_calculateBracketedDuration :: "jsnum list \<Rightarrow> jsnum list \<Rightarrow> jsnum \<Rightarrow> bracketed" where
  "sp_calculateBracketedDuration time acceleration threshold =
     (let aboveThreshold =
            filter (\<lambda>i. i \<noteq> -1)
              (map (\<lambda>(i, acc). if js_ge \<bar>acc\<bar> threshold then int i else -1)
                 (enumerate 0 acceleration))
      in if length aboveThreshold = 0
         then \<lparr> duration = Fin 0, startTime = Number NaN, endTime = Number NaN,
                startIndex = -1, endIndex = -1 \<rparr>
         else
           let startIndex = hd aboveThreshold;
               endIndex = last aboveThreshold
           in \<lparr> duration = to_number (js_get time endIndex) - to_number (js_get time startIndex),
                startTime = js_get time startIndex,
                endTime = js_get time endIndex,
                startIndex = startIndex, endIndex = endIndex \<rparr>)"

text \<open>
  \<open>EarthquakeAnalyzer.calculateBracketedDuration\<close> of \<open>gui/earthquakeAnalysis.js\<close>:
  the same text as the one above.
\<close>

definition gui_calculateBracketedDuration :: "jsnum list \<Rightarrow> jsnum list \<Rightarrow> jsnum \<Rightarrow> bracketed" where
  "gui_calculateBracketedDuration time acceleration threshold =
     (let aboveThreshold =
            filter (\<lambda>i. i \<noteq> -1)
              (map (\<lambda>(i, acc). if js_ge \<bar>acc\<bar> threshold then int i else -1)
                 (enumerate 0 acceleration))
      in if length aboveThreshold = 0
         then \<lparr> duration = Fin 0, startTime = Number NaN, endTime = Number NaN,
                startIndex = -1, endIndex = -1 \<rparr>
         else
           let startIndex = hd aboveThreshold;
               endIndex = last aboveThreshold
           in \<lparr> duration = to_number (js_get time endIndex) - to_number (js_get time startIndex),
                startTime = js_get time startIndex,
                endTime = js_get time endIndex,
                startIndex = startIndex, endIndex = endIndex \<rparr>)"

text \<open>
  \<open>EarthquakeAnalyzer.calculateBracketedDuration(acceleration, time, threshold = null)\<close>
  of the analysis module. The field \<open>units\<close> is set only when a sample exceeds.
\<close>

record bracketed_analysis =
  ba_duration :: jsnum
  ba_startTime :: jsvalue
  ba_endTime :: jsvalue
  ba_threshold :: jsnum
  ba_exceedances :: nat
  ba_units :: "string option"

definition an_thresh :: "jsnum list \<Rightarrow> jsvalue \<Rightarrow> jsnum" where
  "an_thresh acceleration threshold =
     (let PGA = Math_max (map abs acceleration)
      in if truthy threshold then to_number threshold else Fin 0.05 * PGA)"

definition an_calculateBracketedDuration ::
  "jsnum list \<Rightarrow> jsnum list \<Rightarrow> jsvalue \<Rightarrow> bracketed_analysis" where
  "an_calculateBracketedDuration acceleration time threshold =
     (let thresh = an_thresh acceleration threshold;
          aboveThreshold =
            filter (\<lambda>(index, t, above). above)
              (map (\<lambda>(i, acc). (i, js_get time (int i), js_ge \<bar>acc\<bar> thresh))
                 (enumerate 0 acceleration))
      in if length aboveThreshold = 0
         then \<lparr> ba_duration = Fin 0, ba_startTime = Null, ba_endTime = Null,
                ba_threshold = thresh, ba_exceedances = 0, ba_units = None \<rparr>
         else
           let startTime = fst (snd (hd aboveThreshold));
               endTime = fst (snd (last aboveThreshold));
               duration = to_number endTime - to_number startTime
           in \<lparr> ba_duration = duration, ba_startTime = startTime, ba_endTime = endTime,
                ba_threshold = thresh, ba_exceedances = length aboveThreshold,
                ba_units = Some ''s'' \<rparr>)"

section \<open>Arias intensity\<close>

text \<open>
  The result object \<open>{total, cumulative, totalMeterUnits}\<close>; the fields carry the
  prefix \<open>ar_\<close> because \<open>total\<close> is a constant of HOL.
\<close>

record arias =
  ar_total :: real
  ar_cumulative :: "real list"
  ar_totalMeterUnits :: real

text \<open>
  \<open>SignalProcessor.calculateAriasIntensity(time, acceleration)\<close> of
  \<open>processWithMatlab.js\<close>, with \<open>this.gravitationalAccel = 9.81\<close> as the constructor
  sets it. \<open>cumulative\<close> is never empty, so its last element exists.
\<close>

definition gravitationalAccel :: real where
  "gravitationalAccel = 9.81"

definition sp_calculateAriasIntensity :: "real list \<Rightarrow> real list \<Rightarrow> js_error + arias" where
  "sp_calculateAriasIntensity time acceleration =
     (let accMps2 = map (\<lambda>a. a / 100) acceleration;
          accSquared = map (\<lambda>a. a * a) accMps2
      in case sp_cumtrapz time accSquared of
           Inl e \<Rightarrow> Inl e
         | Inr integrated \<Rightarrow>
             let cumulative = map (\<lambda>val. (pi / (2 * gravitationalAccel)) * val) integrated;
                 total = cumulative ! (length cumulative - 1)
             in Inr \<lparr> ar_total = total * 100,
                      ar_cumulative = map (\<lambda>val. val * 100) cumulative,
                      ar_totalMeterUnits = total \<rparr>)"

text \<open>
  \<open>EarthquakeAnalyzer.calculateAriasIntensity(acceleration, time)\<close> of the analysis
  module; \<open>g\<close> is \<open>this.options.gravityConstant\<close> (9.81 unless the caller overrides
  it), \<open>trapz\<close> and \<open>cumtrapz\<close> are those of \<open>utils\<close>. The constant field
  \<open>units\<close> is left out.
\<close>

record arias_analysis =
  ariasIntensity :: real
  cumulativeAI :: "real list"
  aa_time :: "real list"

definition an_calculateAriasIntensity ::
  "real \<Rightarrow> real list \<Rightarrow> real list \<Rightarrow> js_error + arias_analysis" where
  "an_calculateAriasIntensity g acceleration time =
     (let accMeters = map (\<lambda>acc. acc / 100) acceleration;
          accelerationSquared = map (\<lambda>acc. acc * acc) accMeters
      in case trapz time accelerationSquared of
           Inl e \<Rightarrow> Inl e
         | Inr integral \<Rightarrow>
             let ariasIntensity = (pi / (2 * g)) * integral
             in case cumtrapz time accelerationSquared of
                  Inl e \<Rightarrow> Inl e
                | Inr integrated \<Rightarrow>
                    let cumulativeAI = map (\<lambda>val. (pi / (2 * g)) * val) integrated
                    in Inr \<lparr> ariasIntensity = ariasIntensity * 100,
                             cumulativeAI = map (\<lambda>val. val * 100) cumulativeAI,
                             aa_time = time \<rparr>)"

text \<open>The time spanned by a time array.\<close>

definition time_span :: "real list \<Rightarrow> real" where
  "time_span time = (if time = [] then 0 else last time - hd time)"

section \<open>FFT\<close>

text \<open>
  A complex sample \<open>{real, imag}\<close> is a \<open>complex\<close> number. The three helpers are written
  componentwise, as in the source. The arithmetic of this section is exact: it gives
  the lengths, the failures and the values that the algorithm computes when no
  operation rounds. The rounding of the doubles is modelled in section
  \<open>FFT in double precision\<close>.
\<close>

definition complexAdd :: "complex \<Rightarrow> complex \<Rightarrow> complex" where
  "complexAdd a b = Complex (Re a + Re b) (Im a + Im b)"

definition complexSubtract :: "complex \<Rightarrow> complex \<Rightarrow> complex" where
  "complexSubtract a b = Complex (Re a - Re b) (Im a - Im b)"

definition complexMultiply :: "complex \<Rightarrow> complex \<Rightarrow> complex" where
  "complexMultiply a b = Complex (Re a * Re b - Im a * Im b) (Re a * Im b + Im a * Re b)"

text \<open>The entries at even and at odd indices, in order.\<close>

fun evens :: "'a list \<Rightarrow> 'a list" where
  "evens [] = []"
| "evens [x] = [x]"
| "evens (x # y # xs) = x # evens xs"

fun odds :: "'a list \<Rightarrow> 'a list" where
  "odds [] = []"
| "odds [x] = []"
| "odds (x # y # xs) = y # odds xs"

definition twiddle :: "nat \<Rightarrow> nat \<Rightarrow> complex" where
  "twiddle n k = (let angle = - 2 * pi * real k / real n in Complex (cos angle) (sin angle))"

text \<open>
  The combine loop \<open>for (k = 0; k < n / 2; k++)\<close> of \<open>fftRecursive\<close>. \<open>n / 2\<close> is a
  floating-point quotient, so for odd \<open>n\<close> the loop runs up to \<open>k = (n - 1) / 2\<close>.
  Reading \<open>oddFFT[k]\<close> or \<open>evenFFT[k]\<close> out of range gives \<open>undefined\<close>, and the
  complex helper then throws a \<open>TypeError\<close> on \<open>undefined.real\<close>. The loop yields the
  pairs \<open>(result[k], result[k + n / 2])\<close>.
\<close>

fun fftCombine_loop ::
  "nat \<Rightarrow> complex list \<Rightarrow> complex list \<Rightarrow> nat list \<Rightarrow> js_error + (complex \<times> complex) list" where
  "fftCombine_loop n evenFFT oddFFT [] = Inr []"
| "fftCombine_loop n evenFFT oddFFT (k # ks) =
     (if k < length oddFFT \<and> k < length evenFFT
      then
        let temp = complexMultiply (twiddle n k) (oddFFT ! k);
            lo = complexAdd (evenFFT ! k) temp;
            hi = complexSubtract (evenFFT ! k) temp
        in (case fftCombine_loop n evenFFT oddFFT ks of
              Inl e \<Rightarrow> Inl e
            | Inr rest \<Rightarrow> Inr ((lo, hi) # rest))
      else Inl TypeError)"

text \<open>
  For even \<open>n\<close> the loop fills \<open>result[0 .. n/2 - 1]\<close> and \<open>result[n/2 .. n - 1]\<close>.
  For odd \<open>n\<close> the index \<open>k + n / 2\<close> is not an integer and the array would keep holes;
  the model marks that outcome \<open>SparseArray\<close>, and \<open>fftRecursive_never_sparse\<close> below
  shows that it never occurs: for odd \<open>n\<close> the loop has already thrown.
\<close>

definition fftCombine :: "nat \<Rightarrow> complex list \<Rightarrow> complex list \<Rightarrow> js_error + complex list" where
  "fftCombine n evenFFT oddFFT =
     (case fftCombine_loop n evenFFT oddFFT [0 ..< (n + 1) div 2] of
        Inl e \<Rightarrow> Inl e
      | Inr pairs \<Rightarrow> if even n then Inr (map fst pairs @ map snd pairs) else Inl SparseArray)"

lemma length_evens: "length (evens xs) = (length xs + 1) div 2"
  by (induction xs rule: evens.induct) simp_all

lemma length_odds: "length (odds xs) = length xs div 2"
  by (induction xs rule: odds.induct) simp_all

text \<open>
  \<open>fftRecursive\<close> of \<open>utils.js\<close>. \<open>fftRecursive\<close> of \<open>filters.js\<close> and
  \<open>_fftRecursive\<close> of \<open>processWithMatlab.js\<close> and \<open>gui/earthquakeAnalysis.js\<close> have
  the same body, with the even and odd entries collected by \<open>filter\<close> instead of a
  loop; this one definition stands for all of them.
\<close>

function fftRecursive :: "complex list \<Rightarrow> js_error + complex list" where
  "fftRecursive x =
     (let n = length x
      in if n \<le> 1 then Inr x
         else
           case fftRecursive (evens x) of
             Inl e \<Rightarrow> Inl e
           | Inr evenFFT \<Rightarrow>
               (case fftRecursive (odds x) of
                  Inl e \<Rightarrow> Inl e
                | Inr oddFFT \<Rightarrow> fftCombine n evenFFT oddFFT))"
  by pat_completeness auto
termination
  by (relation "measure length") (auto simp add: length_evens length_odds)

declare fftRecursive.simps [simp del]

text \<open>An array entry that is a number or a complex object.\<close>

datatype sample = Num real | Cx complex

fun to_complex :: "sample \<Rightarrow> complex" where
  "to_complex (Num val) = Complex val 0"
| "to_complex (Cx val) = val"

text \<open>\<open>while (x.length < nextPow2) x.push(0)\<close>.\<close>

function pad_zeros :: "complex list \<Rightarrow> nat \<Rightarrow> complex list" where
  "pad_zeros x nextPow2 =
     (if length x < nextPow2 then pad_zeros (x @ [Complex 0 0]) nextPow2 else x)"
  by pat_completeness auto
termination
  by (relation "measure (\<lambda>(x, nextPow2). nextPow2 - length x)") auto

declare pad_zeros.simps [simp del]

text \<open>
  \<open>Math.pow(2, Math.ceil(Math.log2(n)))\<close>, with the logarithm taken over the reals.
\<close>

definition next_pow2 :: "nat \<Rightarrow> nat" where
  "next_pow2 n = 2 ^ nat \<lceil>log 2 (real n)\<rceil>"

text \<open>\<open>fft(signal)\<close> of \<open>utils.js\<close>.\<close>

definition fft :: "sample list \<Rightarrow> js_error + complex list" where
  "fft signal =
     (let n = length signal;
          x = map to_complex signal
      in if n \<le> 1 then Inr x
         else fftRecursive (let nextPow2 = next_pow2 n
               in if n \<noteq> nextPow2 then pad_zeros x nextPow2 else x))"

text \<open>\<open>ifft(spectrum)\<close> of \<open>utils.js\<close>; the spectrum holds complex objects.\<close>

definition ifft :: "complex list \<Rightarrow> js_error + complex list" where
  "ifft spectrum =
     (let conjugated = map (\<lambda>c. Complex (Re c) (- Im c)) spectrum
      in case fft (map Cx conjugated) of
           Inl e \<Rightarrow> Inl e
         | Inr result \<Rightarrow>
             let n = length result
             in Inr (map (\<lambda>c. Complex (Re c / real n) (- Im c / real n)) result))"

text \<open>
  \<open>SignalProcessor.fft(signal)\<close> and \<open>SignalProcessor.ifft(X)\<close> of
  \<open>processWithMatlab.js\<close>; the signal holds numbers.
\<close>

function sp_pad :: "real list \<Rightarrow> nat \<Rightarrow> real list" where
  "sp_pad padded nextPow2 =
     (if length padded < nextPow2 then sp_pad (padded @ [0]) nextPow2 else padded)"
  by pat_completeness auto
termination
  by (relation "measure (\<lambda>(padded, nextPow2). nextPow2 - length padded)") auto

declare sp_pad.simps [simp del]

definition sp_fft :: "real list \<Rightarrow> js_error + complex list" where
  "sp_fft signal =
     (let N = length signal
      in if N \<le> 1 then Inr (map (\<lambda>x. Complex x 0) signal)
         else fftRecursive (map (\<lambda>x. Complex x 0) (sp_pad signal (next_pow2 N))))"

definition sp_ifft :: "complex list \<Rightarrow> js_error + complex list" where
  "sp_ifft X =
     (let N = length X;
          conjugated = map (\<lambda>x. Complex (Re x) (- Im x)) X
      in case fftRecursive conjugated of
           Inl e \<Rightarrow> Inl e
         | Inr result \<Rightarrow> Inr (map (\<lambda>x. Complex (Re x / real N) (- Im x / real N)) result))"

text \<open>
  \<open>fft(x)\<close> of \<open>filters.js\<close>, the transform used by its \<open>preprocessBoore\<close>, on
  an array of numbers (its documented input): no padding.
\<close>

definition filters_fft :: "real list \<Rightarrow> js_error + complex list" where
  "filters_fft x =
     (let N = length x
      in if N \<le> 1 then Inr (map (\<lambda>val. Complex val 0) x)
         else
           let X = map (\<lambda>val. Complex val 0) x
           in fftRecursive X)"

section \<open>Detrend and the Boore high-pass filter\<close>

text \<open>
  \<open>detrend(data)\<close> of \<open>utils.js\<close>; \<open>SignalProcessor.detrend\<close> of
  \<open>processWithMatlab.js\<close> has the same body. \<open>reduce\<close> with an initial value is a
  left fold.
\<close>

definition detrend :: "real list \<Rightarrow> real list" where
  "detrend data =
     (let n = length data
      in if n < 2 then data
         else
           let x = map real [0 ..< n];
               sumX = foldl (\<lambda>a b. a + b) 0 x;
               sumY = foldl (\<lambda>a b. a + b) 0 data;
               sumXY = foldl (\<lambda>sum (i, xi). sum + xi * data ! i) 0 (enumerate 0 x);
               sumXX = foldl (\<lambda>sum xi. sum + xi * xi) 0 x;
               slope = (real n * sumXY - sumX * sumY) / (real n * sumXX - sumX * sumX);
               intercept = (sumY - slope * sumX) / real n
           in map (\<lambda>(i, yi). yi - (slope * real i + intercept)) (enumerate 0 data))"

text \<open>
  The symmetrisation loop \<open>for (i = start; i < n; i++) hpFilter[i] = hpFilter[n - i]\<close>,
  updating the mask in place.
\<close>

definition symmetrize :: "nat \<Rightarrow> nat \<Rightarrow> real list \<Rightarrow> real list" where
  "symmetrize start n hpFilter = foldl (\<lambda>h i. h[i := h ! (n - i)]) hpFilter [start ..< n]"

text \<open>
  \<open>highPassFilter(data, fs, cornerFreq)\<close> of \<open>utils.js\<close>. Both branches of its
  \<open>if (n % 2 === 0)\<close> start the symmetrisation at \<open>floor(n / 2) + 1\<close>.
\<close>

definition highPassFilter :: "real list \<Rightarrow> real \<Rightarrow> real \<Rightarrow> js_error + real list" where
  "highPassFilter data fs cornerFreq =
     (let detrendedData = detrend data
      in case fft (map Num detrendedData) of
           Inl e \<Rightarrow> Inl e
         | Inr fftData \<Rightarrow>
             let n = length fftData;
                 frequencies = map (\<lambda>i. real i * fs / real n) [0 ..< n];
                 hpFilter0 = map (\<lambda>f. if f \<ge> cornerFreq then 1 else 0) frequencies;
                 hpFilter = (if n mod 2 = 0 then symmetrize (n div 2 + 1) n hpFilter0
                             else symmetrize (n div 2 + 1) n hpFilter0);
                 filteredFFT = map (\<lambda>(i, c). Complex (Re c * hpFilter ! i) (Im c * hpFilter ! i))
                                 (enumerate 0 fftData)
             in case ifft filteredFFT of
                  Inl e \<Rightarrow> Inl e
                | Inr ifftResult \<Rightarrow> Inr (map Re ifftResult))"

text \<open>
  \<open>SignalProcessor.highPassFilter(data, fs, cornerFreq)\<close> of \<open>processWithMatlab.js\<close>
  (the \<open>console.log\<close> is left out); it ends with \<open>.slice(0, data.length)\<close>.
\<close>

definition sp_highPassFilter :: "real list \<Rightarrow> real \<Rightarrow> real \<Rightarrow> js_error + real list" where
  "sp_highPassFilter data fs cornerFreq =
     (let detrended = detrend data
      in case sp_fft detrended of
           Inl e \<Rightarrow> Inl e
         | Inr fftData \<Rightarrow>
             let N = length fftData;
                 frequencies = map (\<lambda>i. real i * fs / real N) [0 ..< N];
                 filter0 = map (\<lambda>f. if f \<ge> cornerFreq then 1 else 0) frequencies;
                 filter1 = symmetrize (N div 2 + 1) N filter0;
                 filtered = map (\<lambda>(i, val). Complex (Re val * filter1 ! i) (Im val * filter1 ! i))
                              (enumerate 0 fftData)
             in case sp_ifft filtered of
                  Inl e \<Rightarrow> Inl e
                | Inr result \<Rightarrow> Inr (take (length data) (map Re result)))"

section \<open>Site frequency\<close>

text \<open>\<open>xs.indexOf(v)\<close> on numbers: the first index whose entry is \<open>=== v\<close>, else \<open>-1\<close>.\<close>

fun indexOf_from :: "jsnum list \<Rightarrow> jsnum \<Rightarrow> int \<Rightarrow> int" where
  "indexOf_from [] v i = -1"
| "indexOf_from (x # xs) v i = (if js_eq x v then i else indexOf_from xs v (i + 1))"

definition indexOf :: "jsnum list \<Rightarrow> jsnum \<Rightarrow> int" where
  "indexOf xs v = indexOf_from xs v 0"

record siteFrequency =
  frequency :: jsvalue
  magnitude :: jsvalue
  frequencies :: "jsnum list"
  magnitudes :: "jsnum list"

text \<open>
  \<open>SignalProcessor.findSiteFrequency(acceleration, fs)\<close> of \<open>processWithMatlab.js\<close>.
  \<open>N\<close> is the length of the transform. With no bin to search \<open>Math.max()\<close> is
  \<open>-Infinity\<close>, \<open>indexOf\<close> gives \<open>-1\<close> and both reads are \<open>undefined\<close>.
\<close>

definition sp_findSiteFrequency :: "real list \<Rightarrow> real \<Rightarrow> js_error + siteFrequency" where
  "sp_findSiteFrequency acceleration fs =
     (case sp_fft acceleration of
        Inl e \<Rightarrow> Inl e
      | Inr fftResult \<Rightarrow>
          let N = length fftResult;
              frequencies = map (\<lambda>i. Fin (real i * fs / real N)) [0 ..< N div 2];
              magnitudes = map (\<lambda>x. Fin (sqrt (Re x * Re x + Im x * Im x)))
                             (take (N div 2) fftResult);
              maxIndex = indexOf magnitudes (Math_max magnitudes)
          in Inr \<lparr> frequency = js_get frequencies maxIndex,
                   magnitude = js_get magnitudes maxIndex,
                   frequencies = frequencies,
                   magnitudes = magnitudes \<rparr>)"

text \<open>
  \<open>EarthquakeAnalyzer.findSiteFrequency(acceleration, fs)\<close> of
  \<open>gui/earthquakeAnalysis.js\<close>, whose \<open>fft\<close> has the text of the one in
  \<open>processWithMatlab.js\<close>. Here \<open>N\<close> is the length of the input.
\<close>

record gui_siteFrequency =
  gui_frequency :: jsvalue
  gui_magnitude :: jsvalue
  gui_frequencies :: "jsnum list"
  gui_amplitudes :: "jsnum list"

definition gui_findSiteFrequency :: "real list \<Rightarrow> real \<Rightarrow> js_error + gui_siteFrequency" where
  "gui_findSiteFrequency acceleration fs =
     (let N = length acceleration;
          frequencies = map (\<lambda>i. Fin (real i * fs / real N)) [0 ..< N div 2]
      in case sp_fft acceleration of
           Inl e \<Rightarrow> Inl e
         | Inr fftResult \<Rightarrow>
             let amplitudes = map (\<lambda>x. Fin (sqrt (Re x * Re x + Im x * Im x)))
                                (take (N div 2) fftResult);
                 maxIndex = indexOf amplitudes (Math_max amplitudes)
             in Inr \<lparr> gui_frequency = js_get frequencies maxIndex,
                      gui_magnitude = js_get amplitudes maxIndex,
                      gui_frequencies = frequencies,
                      gui_amplitudes = amplitudes \<rparr>)"

section \<open>Response spectrum (Newmark-Beta)\<close>

text \<open>
  The Newmark constants \<open>a0 ... a5\<close>; the six assignments read the same in
  \<open>processWithMatlab.js\<close>, in the analysis module and in \<open>newmarkBeta\<close> of
  \<open>utils.js\<close>. Each product and sum associates to the left, as in JavaScript.
\<close>

record newmark_consts =
  a0 :: jsnum
  a1 :: jsnum
  a2 :: jsnum
  a3 :: jsnum
  a4 :: jsnum
  a5 :: jsnum

definition newmark_constants :: "jsnum \<Rightarrow> jsnum \<Rightarrow> jsnum \<Rightarrow> newmark_consts" where
  "newmark_constants beta gamma dt =
     \<lparr> a0 = Fin 1 / (beta * dt * dt),
       a1 = gamma / (beta * dt),
       a2 = Fin 1 / (beta * dt),
       a3 = Fin 1 / (Fin 2 * beta) - Fin 1,
       a4 = gamma / beta - Fin 1,
       a5 = dt * (gamma / (Fin 2 * beta) - Fin 1) \<rparr>"

text \<open>The response arrays \<open>u\<close>, \<open>v\<close> and \<open>a\<close> (or \<open>acc\<close>) of one oscillator.\<close>

type_synonym history = "jsnum list \<times> jsnum list \<times> jsnum list"

definition zero_history :: "nat \<Rightarrow> history" where
  "zero_history n = (replicate n (Fin 0), replicate n (Fin 0), replicate n (Fin 0))"

text \<open>
  The time-integration loop of \<open>SignalProcessor.calculateResponseSpectrum\<close> in
  \<open>processWithMatlab.js\<close>, for \<open>j\<close> running over the given indices.
\<close>

fun sp_integrate ::
  "newmark_consts \<Rightarrow> jsnum \<Rightarrow> jsnum \<Rightarrow> jsnum \<Rightarrow> jsnum list \<Rightarrow> nat list \<Rightarrow> history \<Rightarrow> history" where
  "sp_integrate K m c keff acceleration [] (u, v, a) = (u, v, a)"
| "sp_integrate K m c keff acceleration (j # js) (u, v, a) =
     (let dp = (- m) * (acceleration ! j - acceleration ! (j - 1));
          rhs = dp +
                m * (a0 K * u ! (j - 1) + a2 K * v ! (j - 1) + a3 K * a ! (j - 1)) +
                c * (a1 K * u ! (j - 1) + a4 K * v ! (j - 1) + a5 K * a ! (j - 1));
          du = rhs / keff;
          dv = a1 K * du - a4 K * u ! (j - 1) - a2 K * v ! (j - 1) - a5 K * a ! (j - 1);
          da = a0 K * du - a0 K * u ! (j - 1) - a2 K * v ! (j - 1) - a3 K * a ! (j - 1)
      in sp_integrate K m c keff acceleration js (u[j := du], v[j := dv], a[j := da]))"

text \<open>The three pushes \<open>(SD, PSV, PSA)\<close> of one pass of the frequency loop.\<close>

definition peaks :: "history \<Rightarrow> jsnum \<times> jsnum \<times> jsnum" where
  "peaks h = (case h of (u, v, a) \<Rightarrow>
     (Math_max (map abs u), Math_max (map abs v), Math_max (map abs a)))"

definition sp_keff :: "newmark_consts \<Rightarrow> jsnum \<Rightarrow> jsnum \<Rightarrow> jsnum" where
  "sp_keff K dampingRatio f =
     (let omega = Fin 2 * Fin pi * f;
          m = Fin 1;
          k = m * omega * omega;
          c = Fin 2 * dampingRatio * m * omega
      in k + a0 K * m + a1 K * c)"

definition sp_history :: "newmark_consts \<Rightarrow> jsnum list \<Rightarrow> jsnum \<Rightarrow> jsnum \<Rightarrow> history" where
  "sp_history K acceleration dampingRatio f =
     (let omega = Fin 2 * Fin pi * f;
          m = Fin 1;
          c = Fin 2 * dampingRatio * m * omega;
          keff = sp_keff K dampingRatio f
      in sp_integrate K m c keff acceleration [1 ..< length acceleration]
           (zero_history (length acceleration)))"

definition sp_period :: "newmark_consts \<Rightarrow> jsnum list \<Rightarrow> jsnum \<Rightarrow> jsnum \<Rightarrow> jsnum \<times> jsnum \<times> jsnum" where
  "sp_period K acceleration dampingRatio f =
     (let keff = sp_keff K dampingRatio f
      in if js_eq keff (Fin 0) \<or> \<not> isFinite keff then (Fin 0, Fin 0, Fin 0)
         else peaks (sp_history K acceleration dampingRatio f))"

text \<open>
  The period grid \<open>for (let T = 0.01; T <= 10; T += 0.02)\<close>, with exact additions.
\<close>

function period_grid :: "real \<Rightarrow> real list" where
  "period_grid T = (if T \<le> 10 then T # period_grid (T + 0.02) else [])"
  by pat_completeness auto
termination
proof (relation "measure (\<lambda>T. nat (\<lfloor>(10 - T) / 0.02\<rfloor> + 1))")
  show "wf (measure (\<lambda>T. nat (\<lfloor>(10 - T) / 0.02\<rfloor> + 1)))" by simp
next
  fix T :: real
  assume le: "T \<le> 10"
  have eq: "(10 - (T + 0.02)) / 0.02 = (10 - T) / 0.02 - 1" by (simp add: field_simps)
  have "\<lfloor>(10 - T) / 0.02 - 1\<rfloor> = \<lfloor>(10 - T) / 0.02\<rfloor> - 1" by (rule floor_diff_one)
  then have step: "\<lfloor>(10 - (T + 0.02)) / 0.02\<rfloor> = \<lfloor>(10 - T) / 0.02\<rfloor> - 1"
    by (simp only: eq)
  have "0 \<le> (10 - T) / 0.02" using le by simp
  then have "0 \<le> \<lfloor>(10 - T) / 0.02\<rfloor>" by (simp only: zero_le_floor)
  then have "nat (\<lfloor>(10 - T) / 0.02\<rfloor> - 1 + 1) < nat (\<lfloor>(10 - T) / 0.02\<rfloor> + 1)" by simp
  then show "(T + 0.02, T) \<in> measure (\<lambda>T. nat (\<lfloor>(10 - T) / 0.02\<rfloor> + 1))"
    by (simp only: in_measure step)
qed

declare period_grid.simps [simp del]

record spectrum =
  sp_periods :: "jsnum list"
  sp_frequencies :: "jsnum list"
  sp_SD :: "jsnum list"
  sp_PSV :: "jsnum list"
  sp_PSA :: "jsnum list"
  sp_dampingRatio :: jsnum

text \<open>
  \<open>SignalProcessor.calculateResponseSpectrum(acceleration, time, dampingRatio)\<close> of
  \<open>processWithMatlab.js\<close> (the \<open>console.log\<close> is left out; the default 0.05 of
  \<open>dampingRatio\<close> is the caller's to pass). The frequency loop pushes one entry per
  frequency onto each of \<open>PSA\<close>, \<open>PSV\<close>, \<open>SD\<close>.
\<close>

definition sp_dt :: "jsnum list \<Rightarrow> jsnum" where
  "sp_dt time = to_number (js_get time 1) - to_number (js_get time 0)"

definition sp_calculateResponseSpectrum :: "jsnum list \<Rightarrow> jsnum list \<Rightarrow> jsnum \<Rightarrow> spectrum" where
  "sp_calculateResponseSpectrum acceleration time dampingRatio =
     (let dt = sp_dt time;
          periods = map Fin (period_grid 0.01);
          frequencies = map (\<lambda>T. Fin 1 / T) periods;
          beta = Fin 0.25;
          gamma = Fin 0.5;
          K = newmark_constants beta gamma dt;
          rows = map (sp_period K acceleration dampingRatio) frequencies
      in \<lparr> sp_periods = periods, sp_frequencies = frequencies,
           sp_SD = map (\<lambda>(sd, psv, psa). sd) rows,
           sp_PSV = map (\<lambda>(sd, psv, psa). psv) rows,
           sp_PSA = map (\<lambda>(sd, psv, psa). psa) rows,
           sp_dampingRatio = dampingRatio \<rparr>)"

text \<open>
  The time-integration loop of \<open>EarthquakeAnalyzer.calculateResponseSpectra\<close> in the
  analysis module.
\<close>

fun an_integrate ::
  "newmark_consts \<Rightarrow> jsnum \<Rightarrow> jsnum \<Rightarrow> jsnum \<Rightarrow> jsnum list \<Rightarrow> nat list \<Rightarrow> history \<Rightarrow> history" where
  "an_integrate K m c keff acceleration [] (u, v, acc) = (u, v, acc)"
| "an_integrate K m c keff acceleration (j # js) (u, v, acc) =
     (let dp = (- m) * (acceleration ! j - acceleration ! (j - 1));
          rhs = dp + m * (a0 K * u ! (j - 1) + a2 K * v ! (j - 1) + a3 K * acc ! (j - 1)) +
                c * (a1 K * u ! (j - 1) + a4 K * v ! (j - 1) + a5 K * acc ! (j - 1));
          du = rhs / keff;
          dv = a1 K * (du - u ! (j - 1)) - a4 K * v ! (j - 1) - a5 K * acc ! (j - 1);
          da = a0 K * (du - u ! (j - 1)) - a2 K * v ! (j - 1) - a3 K * acc ! (j - 1)
      in an_integrate K m c keff acceleration js (u[j := du], v[j := dv], acc[j := da]))"

definition an_keff :: "newmark_consts \<Rightarrow> jsnum \<Rightarrow> jsnum \<Rightarrow> jsnum" where
  "an_keff K zeta T =
     (let omega = Fin 2 * Fin pi / T;
          m = Fin 1;
          k = m * omega * omega;
          c = Fin 2 * zeta * m * omega
      in k + a0 K * m + a1 K * c)"

definition an_history :: "newmark_consts \<Rightarrow> jsnum list \<Rightarrow> jsnum \<Rightarrow> jsnum \<Rightarrow> history" where
  "an_history K acceleration zeta T =
     (let omega = Fin 2 * Fin pi / T;
          m = Fin 1;
          c = Fin 2 * zeta * m * omega;
          n = length acceleration;
          keff = an_keff K zeta T
      in an_integrate K m c keff acceleration [1 ..< n] (zero_history n))"

text \<open>
  One pass of the period loop: the entries \<open>(SD[i], PSV[i], PSA[i])\<close>, which stay at
  their initial 0 when the pass is skipped by \<open>continue\<close>.
\<close>

definition an_period :: "newmark_consts \<Rightarrow> jsnum list \<Rightarrow> jsnum \<Rightarrow> jsnum \<Rightarrow> jsnum \<times> jsnum \<times> jsnum" where
  "an_period K acceleration zeta T =
     (let keff = an_keff K zeta T
      in if \<not> isFinite keff \<or> js_le keff (Fin 0) then (Fin 0, Fin 0, Fin 0)
         else peaks (an_history K acceleration zeta T))"

record spectra =
  an_periods :: "jsnum list"
  an_frequencies :: "jsnum list"
  an_SD :: "jsnum list"
  an_PSV :: "jsnum list"
  an_PSA :: "jsnum list"
  an_damping :: jsnum

text \<open>
  \<open>EarthquakeAnalyzer.calculateResponseSpectra(acceleration, time, periods, damping)\<close>
  of the analysis module. \<open>options_dampingRatio\<close> is \<open>this.options.dampingRatio\<close>
  (0.05 unless the caller overrides it); \<open>periods\<close> and \<open>damping\<close> are \<open>None\<close> for
  \<open>null\<close>. The constant field \<open>units\<close> is left out.
\<close>

definition an_zeta :: "jsnum \<Rightarrow> jsnum option \<Rightarrow> jsnum" where
  "an_zeta options_dampingRatio damping =
     (case damping of
        None \<Rightarrow> options_dampingRatio
      | Some d \<Rightarrow> if truthy (Number d) then d else options_dampingRatio)"

definition an_dt :: "jsnum list \<Rightarrow> jsnum" where
  "an_dt time =
     (if length time > 1 then to_number (js_get time 1) - to_number (js_get time 0)
      else Fin 0.01)"

definition an_calculateResponseSpectra ::
  "jsnum \<Rightarrow> jsnum list \<Rightarrow> jsnum list \<Rightarrow> jsnum list option \<Rightarrow> jsnum option \<Rightarrow> spectra" where
  "an_calculateResponseSpectra options_dampingRatio acceleration time periods damping =
     (let zeta = an_zeta options_dampingRatio damping;
          dt = an_dt time;
          periods = (case periods of
                       None \<Rightarrow> map Fin (period_grid 0.01)
                     | Some ps \<Rightarrow> ps);
          frequencies = map (\<lambda>T. Fin 1 / T) periods;
          beta = Fin 0.25;
          gamma = Fin 0.5;
          K = newmark_constants beta gamma dt;
          rows = map (an_period K acceleration zeta) periods
      in \<lparr> an_periods = periods, an_frequencies = frequencies,
           an_SD = map (\<lambda>(sd, psv, psa). sd) rows,
           an_PSV = map (\<lambda>(sd, psv, psa). psv) rows,
           an_PSA = map (\<lambda>(sd, psv, psa). psa) rows,
           an_damping = zeta \<rparr>)"

text \<open>
  \<open>newmarkBeta(params)\<close> of \<open>utils.js\<close>; \<open>beta\<close> and \<open>gamma\<close> default to \<open>1/4\<close>
  and \<open>1/2\<close> when the caller leaves them out. There is no guard on \<open>keff\<close>.
\<close>

fun newmarkBeta_loop ::
  "newmark_consts \<Rightarrow> jsnum \<Rightarrow> jsnum \<Rightarrow> jsnum \<Rightarrow> jsnum list \<Rightarrow> nat list \<Rightarrow> history \<Rightarrow> history" where
  "newmarkBeta_loop K m c keff acceleration [] (u, v, acc) = (u, v, acc)"
| "newmarkBeta_loop K m c keff acceleration (i # is) (u, v, acc) =
     (let dp = (- m) * (acceleration ! i - acceleration ! (i - 1));
          rhs = dp +
                m * (a0 K * u ! (i - 1) + a2 K * v ! (i - 1) + a3 K * acc ! (i - 1)) +
                c * (a1 K * u ! (i - 1) + a4 K * v ! (i - 1) + a5 K * acc ! (i - 1));
          du = rhs / keff;
          dv = a1 K * (du - u ! (i - 1)) - a4 K * v ! (i - 1) - a5 K * acc ! (i - 1);
          da = a0 K * (du - u ! (i - 1)) - a2 K * v ! (i - 1) - a3 K * acc ! (i - 1)
      in newmarkBeta_loop K m c keff acceleration is (u[i := du], v[i := dv], acc[i := da]))"

definition newmarkBeta ::
  "jsnum list \<Rightarrow> jsnum \<Rightarrow> jsnum \<Rightarrow> jsnum \<Rightarrow> jsnum option \<Rightarrow> jsnum option \<Rightarrow> history" where
  "newmarkBeta acceleration dt omega zeta beta_arg gamma_arg =
     (let beta = (case beta_arg of None \<Rightarrow> Fin (1 / 4) | Some b \<Rightarrow> b);
          gamma = (case gamma_arg of None \<Rightarrow> Fin (1 / 2) | Some g \<Rightarrow> g);
          n = length acceleration;
          m = Fin 1;
          k = m * omega * omega;
          c = Fin 2 * zeta * m * omega;
          K = newmark_constants beta gamma dt;
          keff = k + a0 K * m + a1 K * c
      in newmarkBeta_loop K m c keff acceleration [1 ..< n] (zero_history n))"

text \<open>
  The effective stiffness at the first grid period \<open>T = 0.01\<close> for unit time step:
  \<open>q_pos\<close> with damping ratio 0.05 and \<open>q_neg\<close> with damping ratio \<open>-1000\<close>.
  They are used in the worked examples below.
\<close>

definition q_pos :: real where
  "q_pos = 40000 * pi * pi + 4 + 40 * pi"

definition q_neg :: real where
  "q_neg = 40000 * pi * pi + 4 - 800000 * pi"

subsection \<open>Reference transform\<close>



section \<open>FFT in double precision\<close>

text \<open>
  The numbers of the program are IEEE 754 binary64 values, and every arithmetic
  operation rounds its exact result to the nearest of them, ties to the even
  significand. \<open>round_half_even\<close> rounds a real to an integer in that way.
  \<open>to_double\<close> rounds a real to a double: the significand has 53 bits, the exponent of
  the last bit is at least \<open>-1074\<close> (subnormal numbers), and a result of magnitude
  \<open>2 ^ 1024\<close> or more is an infinity. As elsewhere, the two zeros are not told apart.
\<close>

definition round_half_even :: "real \<Rightarrow> int" where
  "round_half_even t =
     (let f = \<lfloor>t\<rfloor>; r = t - of_int f
      in if r < 1 / 2 then f else if 1 / 2 < r then f + 1 else if even f then f else f + 1)"

definition to_double :: "real \<Rightarrow> jsnum" where
  "to_double x =
     (if x = 0 then Fin 0
      else
        let e = max (\<lfloor>log 2 \<bar>x\<bar>\<rfloor> - 52) (- 1074);
            r = of_int (round_half_even (x / 2 powr of_int e)) * 2 powr of_int e
        in if 2 ^ 1024 \<le> \<bar>r\<bar> then js_signed_inf (0 < x) else Fin r)"

text \<open>The result of an operation, rounded; an infinity or \<open>NaN\<close> stays as it is.\<close>

fun dbl :: "jsnum \<Rightarrow> jsnum" where
  "dbl (Fin x) = to_double x"
| "dbl v = v"

text \<open>The operators \<open>+\<close>, \<open>-\<close>, \<open>*\<close> and \<open>/\<close> on doubles. Negation is exact.\<close>

definition add_double :: "jsnum \<Rightarrow> jsnum \<Rightarrow> jsnum" where
  "add_double a b = dbl (a + b)"

definition sub_double :: "jsnum \<Rightarrow> jsnum \<Rightarrow> jsnum" where
  "sub_double a b = dbl (a - b)"

definition mul_double :: "jsnum \<Rightarrow> jsnum \<Rightarrow> jsnum" where
  "mul_double a b = dbl (a * b)"

definition div_double :: "jsnum \<Rightarrow> jsnum \<Rightarrow> jsnum" where
  "div_double a b = dbl (a / b)"

text \<open>
  \<open>Math.PI\<close> is the double nearest to \<open>pi\<close>, \<open>7074237752028440 / 2 ^ 51\<close>.
  ECMAScript leaves the accuracy of \<open>Math.cos\<close> and \<open>Math.sin\<close> to the implementation,
  except that \<open>Math.cos(0)\<close> is 1 and \<open>Math.sin(0)\<close> is 0; they are taken here as
  correctly rounded, which agrees with that.
\<close>

definition Math_PI :: jsnum where
  "Math_PI = Fin (7074237752028440 / 2 ^ 51)"

fun Math_cos :: "jsnum \<Rightarrow> jsnum" where
  "Math_cos (Fin x) = to_double (cos x)"
| "Math_cos _ = NaN"

fun Math_sin :: "jsnum \<Rightarrow> jsnum" where
  "Math_sin (Fin x) = to_double (sin x)"
| "Math_sin _ = NaN"

text \<open>
  A complex sample \<open>{real, imag}\<close> of doubles, and the functions of \<open>utils.js\<close> on
  such samples: the definitions of section \<open>FFT\<close> again, operation by operation, with
  every intermediate result rounded. \<open>-2 * Math.PI * k / n\<close> is evaluated from left to
  right.
\<close>

datatype dcomplex = DComplex (re_part: jsnum) (im_part: jsnum)

definition complexAdd_double :: "dcomplex \<Rightarrow> dcomplex \<Rightarrow> dcomplex" where
  "complexAdd_double a b =
     DComplex (add_double (re_part a) (re_part b)) (add_double (im_part a) (im_part b))"

definition complexSubtract_double :: "dcomplex \<Rightarrow> dcomplex \<Rightarrow> dcomplex" where
  "complexSubtract_double a b =
     DComplex (sub_double (re_part a) (re_part b)) (sub_double (im_part a) (im_part b))"

definition complexMultiply_double :: "dcomplex \<Rightarrow> dcomplex \<Rightarrow> dcomplex" where
  "complexMultiply_double a b =
     DComplex (sub_double (mul_double (re_part a) (re_part b)) (mul_double (im_part a) (im_part b)))
              (add_double (mul_double (re_part a) (im_part b)) (mul_double (im_part a) (re_part b)))"

definition twiddle_double :: "nat \<Rightarrow> nat \<Rightarrow> dcomplex" where
  "twiddle_double n k =
     (let angle = div_double (mul_double (mul_double (Fin (- 2)) Math_PI) (Fin (real k)))
                    (Fin (real n))
      in DComplex (Math_cos angle) (Math_sin angle))"

fun fftCombine_loop_double ::
  "nat \<Rightarrow> dcomplex list \<Rightarrow> dcomplex list \<Rightarrow> nat list \<Rightarrow> js_error + (dcomplex \<times> dcomplex) list" where
  "fftCombine_loop_double n evenFFT oddFFT [] = Inr []"
| "fftCombine_loop_double n evenFFT oddFFT (k # ks) =
     (if k < length oddFFT \<and> k < length evenFFT
      then
        let temp = complexMultiply_double (twiddle_double n k) (oddFFT ! k);
            lo = complexAdd_double (evenFFT ! k) temp;
            hi = complexSubtract_double (evenFFT ! k) temp
        in (case fftCombine_loop_double n evenFFT oddFFT ks of
              Inl e \<Rightarrow> Inl e
            | Inr rest \<Rightarrow> Inr ((lo, hi) # rest))
      else Inl TypeError)"

definition fftCombine_double ::
  "nat \<Rightarrow> dcomplex list \<Rightarrow> dcomplex list \<Rightarrow> js_error + dcomplex list" where
  "fftCombine_double n evenFFT oddFFT =
     (case fftCombine_loop_double n evenFFT oddFFT [0 ..< (n + 1) div 2] of
        Inl e \<Rightarrow> Inl e
      | Inr pairs \<Rightarrow> if even n then Inr (map fst pairs @ map snd pairs) else Inl SparseArray)"

function fftRecursive_double :: "dcomplex list \<Rightarrow> js_error + dcomplex list" where
  "fftRecursive_double x =
     (let n = length x
      in if n \<le> 1 then Inr x
         else
           case fftRecursive_double (evens x) of
             Inl e \<Rightarrow> Inl e
           | Inr evenFFT \<Rightarrow>
               (case fftRecursive_double (odds x) of
                  Inl e \<Rightarrow> Inl e
                | Inr oddFFT \<Rightarrow> fftCombine_double n evenFFT oddFFT))"
  by pat_completeness auto
termination
  by (relation "measure length") (auto simp add: length_evens length_odds)

declare fftRecursive_double.simps [simp del]

text \<open>An array entry that is a number or a complex object.\<close>

datatype sample_double = DNum jsnum | DCx dcomplex

fun to_complex_double :: "sample_double \<Rightarrow> dcomplex" where
  "to_complex_double (DNum val) = DComplex val (Fin 0)"
| "to_complex_double (DCx val) = val"

function pad_zeros_double :: "dcomplex list \<Rightarrow> nat \<Rightarrow> dcomplex list" where
  "pad_zeros_double x nextPow2 =
     (if length x < nextPow2 then pad_zeros_double (x @ [DComplex (Fin 0) (Fin 0)]) nextPow2
      else x)"
  by pat_completeness auto
termination
  by (relation "measure (\<lambda>(x, nextPow2). nextPow2 - length x)") auto

declare pad_zeros_double.simps [simp del]

text \<open>
  \<open>fft(signal)\<close> and \<open>ifft(spectrum)\<close> of \<open>utils.js\<close> on doubles. The padded length is
  a count, computed as in \<open>next_pow2\<close>.
\<close>

definition fft_double :: "sample_double list \<Rightarrow> js_error + dcomplex list" where
  "fft_double signal =
     (let n = length signal;
          x = map to_complex_double signal
      in if n \<le> 1 then Inr x
         else fftRecursive_double (let nextPow2 = next_pow2 n
               in if n \<noteq> nextPow2 then pad_zeros_double x nextPow2 else x))"

definition ifft_double :: "dcomplex list \<Rightarrow> js_error + dcomplex list" where
  "ifft_double spectrum =
     (let conjugated = map (\<lambda>c. DComplex (re_part c) (- im_part c)) spectrum
      in case fft_double (map DCx conjugated) of
           Inl e \<Rightarrow> Inl e
         | Inr result \<Rightarrow>
             let n = length result
             in Inr (map (\<lambda>c. DComplex (div_double (re_part c) (Fin (real n)))
                                        (div_double (- im_part c) (Fin (real n)))) result))"

section \<open>Properties of the integrator\<close>

lemma cumtrapz_loop_length:
  "length (cumtrapz_loop x y ks result) = length result + length ks"
  by (induction ks arbitrary: result) (simp_all add: Let_def)

lemma sp_cumtrapz_loop_length:
  "length (sp_cumtrapz_loop t d ks result) = length result + length ks"
  by (induction ks arbitrary: result) (simp_all add: Let_def)

lemma cumtrapz_loop_hd:
  "result \<noteq> [] \<Longrightarrow> hd (cumtrapz_loop x y ks result) = hd result"
  by (induction ks arbitrary: result) (simp_all add: Let_def)

lemma sp_cumtrapz_loop_hd:
  "result \<noteq> [] \<Longrightarrow> hd (sp_cumtrapz_loop t d ks result) = hd result"
  by (induction ks arbitrary: result) (simp_all add: Let_def)

text \<open>
  C10. For empty inputs both integrators return the one-element array \<open>[0]\<close>; for
  equal-length inputs the output has \<open>max 1 n\<close> elements, so its length is the
  input length exactly when the input is non-empty, and its first element is 0.
\<close>

theorem cumtrapz_length_and_first:
  assumes "length x = length y"
  shows "\<exists>r s. cumtrapz x y = Inr r \<and> sp_cumtrapz x y = Inr s
           \<and> length r = max 1 (length x) \<and> length s = max 1 (length x)
           \<and> hd r = 0 \<and> hd s = 0
           \<and> (x = [] \<longrightarrow> r = [0] \<and> s = [0])
           \<and> (x \<noteq> [] \<longrightarrow> length r = length x \<and> length s = length x)"
  using assms
  by (cases x) (simp_all add: cumtrapz_def sp_cumtrapz_def cumtrapz_loop_length
      sp_cumtrapz_loop_length cumtrapz_loop_hd sp_cumtrapz_loop_hd)

theorem cumtrapz_length_and_first_witness:
  "cumtrapz [] [] = Inr [0] \<and> sp_cumtrapz [] [] = Inr [0]
   \<and> (\<exists>r s. cumtrapz [0, 1, 2] [3, 5, 7] = Inr r \<and> sp_cumtrapz [0, 1, 2] [3, 5, 7] = Inr s
        \<and> length r = 3 \<and> length s = 3 \<and> hd r = 0 \<and> hd s = 0)"
  using cumtrapz_length_and_first [of "[]" "[]"]
        cumtrapz_length_and_first [of "[0, 1, 2]" "[3, 5, 7]"]
  by auto

text \<open>
  C7 (as the code has it). Both integrators throw exactly when the two arrays differ
  in length, and then produce no result. Neither checks that \<open>time\<close> is increasing:
  every equal-length input is integrated.
\<close>

theorem cumtrapz_throws_iff_length_mismatch:
  "(cumtrapz x y = Inl (Error ''cumtrapz: x and y must have same length'')
      \<longleftrightarrow> length x \<noteq> length y)
   \<and> (sp_cumtrapz x y = Inl (Error ''Time and data arrays must have same length'')
      \<longleftrightarrow> length x \<noteq> length y)
   \<and> ((\<exists>r. cumtrapz x y = Inr r) \<longleftrightarrow> length x = length y)
   \<and> ((\<exists>r. sp_cumtrapz x y = Inr r) \<longleftrightarrow> length x = length y)"
  by (simp add: cumtrapz_def sp_cumtrapz_def)

theorem cumtrapz_throws_iff_length_mismatch_witness:
  "cumtrapz [0, 1] [5] = Inl (Error ''cumtrapz: x and y must have same length'')
   \<and> sp_cumtrapz [0, 1] [5] = Inl (Error ''Time and data arrays must have same length'')
   \<and> (\<exists>r. cumtrapz [0, 1] [5, 5] = Inr r) \<and> (\<exists>r. sp_cumtrapz [0, 1] [5, 5] = Inr r)"
  using cumtrapz_throws_iff_length_mismatch [of "[0, 1]" "[5]"]
        cumtrapz_throws_iff_length_mismatch [of "[0, 1]" "[5, 5]"]
  by simp

text \<open>
  C7, counterexample to the claim as stated: a time array that is not increasing is
  integrated without any failure.
\<close>

theorem cumtrapz_non_monotonic_time_accepted:
  "cumtrapz [1, 0] [1, 1] = Inr [0, -1] \<and> sp_cumtrapz [1, 0] [1, 1] = Inr [0, -1]"
  by (simp add: cumtrapz_def sp_cumtrapz_def upt_rec [of 1] Let_def)

section \<open>Properties of the bracketed duration\<close>

lemma no_exceedance_indices:
  "\<forall>a \<in> set acceleration. \<not> js_ge \<bar>a\<bar> threshold \<Longrightarrow>
     filter (\<lambda>i. i \<noteq> -1)
       (map (\<lambda>(i, acc). if js_ge \<bar>acc\<bar> threshold then int i else -1)
          (enumerate n acceleration)) = []"
  by (induction acceleration arbitrary: n) simp_all

lemma no_exceedance_items:
  "\<forall>a \<in> set acceleration. \<not> js_ge \<bar>a\<bar> thresh \<Longrightarrow>
     filter (\<lambda>(index, t, above). above)
       (map (\<lambda>(i, acc). (i, f i, js_ge \<bar>acc\<bar> thresh)) (enumerate n acceleration)) = []"
  by (induction acceleration arbitrary: n) simp_all

text \<open>
  C5 (as the code has it). When no sample reaches the threshold, the duration is 0;
  the bounds are \<open>NaN\<close> with both indices \<open>-1\<close> in \<open>processWithMatlab.js\<close> and
  \<open>gui/earthquakeAnalysis.js\<close>, and \<open>null\<close> in the analysis module (whose threshold
  is the argument when truthy and 5 percent of the peak otherwise).
\<close>

theorem bracketed_duration_no_exceedance:
  assumes "\<forall>a \<in> set acceleration. \<not> js_ge \<bar>a\<bar> threshold"
      and "\<forall>a \<in> set acceleration. \<not> js_ge \<bar>a\<bar> (an_thresh acceleration th)"
  shows "sp_calculateBracketedDuration time acceleration threshold =
       \<lparr> duration = Fin 0, startTime = Number NaN, endTime = Number NaN,
         startIndex = -1, endIndex = -1 \<rparr>
     \<and> gui_calculateBracketedDuration time acceleration threshold =
       \<lparr> duration = Fin 0, startTime = Number NaN, endTime = Number NaN,
         startIndex = -1, endIndex = -1 \<rparr>
     \<and> an_calculateBracketedDuration acceleration time th =
       \<lparr> ba_duration = Fin 0, ba_startTime = Null, ba_endTime = Null,
         ba_threshold = an_thresh acceleration th, ba_exceedances = 0, ba_units = None \<rparr>"
  using assms
  by (simp add: sp_calculateBracketedDuration_def gui_calculateBracketedDuration_def
      an_calculateBracketedDuration_def no_exceedance_indices no_exceedance_items Let_def)

theorem bracketed_duration_no_exceedance_witness:
  "sp_calculateBracketedDuration [Fin 0, Fin 1] [Fin 1, Fin (-2)] (Fin 5) =
       \<lparr> duration = Fin 0, startTime = Number NaN, endTime = Number NaN,
         startIndex = -1, endIndex = -1 \<rparr>
   \<and> gui_calculateBracketedDuration [Fin 0, Fin 1] [Fin 1, Fin (-2)] (Fin 5) =
       \<lparr> duration = Fin 0, startTime = Number NaN, endTime = Number NaN,
         startIndex = -1, endIndex = -1 \<rparr>
   \<and> an_calculateBracketedDuration [Fin 1, Fin (-2)] [Fin 0, Fin 1] (Number (Fin 5)) =
       \<lparr> ba_duration = Fin 0, ba_startTime = Null, ba_endTime = Null,
         ba_threshold = Fin 5, ba_exceedances = 0, ba_units = None \<rparr>"
  using bracketed_duration_no_exceedance
          [of "[Fin 1, Fin (-2)]" "Fin 5" "Number (Fin 5)" "[Fin 0, Fin 1]"]
  by (simp add: js_ge_def abs_jsnum_def an_thresh_def)

text \<open>
  C5, counterexample to the claim as stated: with no sample at the threshold the
  bounds returned by \<open>processWithMatlab.js\<close> are \<open>NaN\<close>.
\<close>

theorem bracketed_duration_bounds_are_NaN:
  "startTime (sp_calculateBracketedDuration [Fin 0, Fin 1] [Fin 1, Fin (-2)] (Fin 5)) = Number NaN
   \<and> endTime (sp_calculateBracketedDuration [Fin 0, Fin 1] [Fin 1, Fin (-2)] (Fin 5)) = Number NaN"
  by (simp add: sp_calculateBracketedDuration_def js_ge_def abs_jsnum_def)

section \<open>Properties of the Arias intensity\<close>


lemma last_by_length: "length xs = Suc i \<Longrightarrow> last xs = xs ! i"
  by (cases xs rule: rev_cases) (simp_all add: nth_append)

lemma sp_cumtrapz_loop_const:
  assumes "\<forall>j < m. y ! j = c" and "i < m" and "length result = Suc i"
      and "last result = c * (x ! i - x ! 0)"
  shows "last (sp_cumtrapz_loop x y [Suc i ..< m] result) = c * (x ! (m - 1) - x ! 0)"
  using assms
proof (induction "m - Suc i" arbitrary: i result)
  case 0
  then have "m = Suc i" by simp
  then show ?case using "0.prems" by simp
next
  case (Suc d)
  then have lt: "Suc i < m" by simp
  have nth: "result ! i = c * (x ! i - x ! 0)"
    using Suc.prems(3,4) by (simp add: last_by_length)
  have yi: "y ! i = c" "y ! Suc i = c"
    using Suc.prems(1) lt by simp_all
  let ?r = "result @ [result ! i + 0.5 * (y ! Suc i + y ! i) * (x ! Suc i - x ! i)]"
  have "last (sp_cumtrapz_loop x y [Suc (Suc i) ..< m] ?r) = c * (x ! (m - 1) - x ! 0)"
  proof (rule Suc.hyps(1))
    show "d = m - Suc (Suc i)" using Suc.hyps(2) by simp
    show "last ?r = c * (x ! Suc i - x ! 0)"
      by (simp add: nth yi algebra_simps)
  qed (use Suc.prems lt in simp_all)
  then show ?case
    using lt by (simp add: upt_conv_Cons Let_def)
qed

lemma cumtrapz_loop_const:
  assumes "\<forall>j < m. y ! j = c" and "i < m" and "length result = Suc i"
      and "last result = c * (x ! i - x ! 0)"
  shows "last (cumtrapz_loop x y [Suc i ..< m] result) = c * (x ! (m - 1) - x ! 0)"
  using assms
proof (induction "m - Suc i" arbitrary: i result)
  case 0
  then have "m = Suc i" by simp
  then show ?case using "0.prems" by simp
next
  case (Suc d)
  then have lt: "Suc i < m" by simp
  have nth: "result ! i = c * (x ! i - x ! 0)"
    using Suc.prems(3,4) by (simp add: last_by_length)
  have yi: "y ! i = c" "y ! Suc i = c"
    using Suc.prems(1) lt by simp_all
  let ?r = "result @ [result ! i + (x ! Suc i - x ! i) * ((y ! Suc i + y ! i) / 2)]"
  have "last (cumtrapz_loop x y [Suc (Suc i) ..< m] ?r) = c * (x ! (m - 1) - x ! 0)"
  proof (rule Suc.hyps(1))
    show "d = m - Suc (Suc i)" using Suc.hyps(2) by simp
    show "last ?r = c * (x ! Suc i - x ! 0)"
      by (simp add: nth yi algebra_simps)
  qed (use Suc.prems lt in simp_all)
  then show ?case
    using lt by (simp add: upt_conv_Cons Let_def)
qed

lemma trapz_loop_const:
  assumes "\<forall>j < m. y ! j = c" and "i < m"
      and "integral = c * (x ! i - x ! 0)"
  shows "trapz_loop x y [Suc i ..< m] integral = c * (x ! (m - 1) - x ! 0)"
  using assms
proof (induction "m - Suc i" arbitrary: i integral)
  case 0
  then have "m = Suc i" by simp
  then show ?case using "0.prems" by simp
next
  case (Suc d)
  then have lt: "Suc i < m" by simp
  have yi: "y ! i = c" "y ! Suc i = c"
    using Suc.prems(1) lt by simp_all
  let ?s = "integral + (x ! Suc i - x ! i) * ((y ! Suc i + y ! i) / 2)"
  have "trapz_loop x y [Suc (Suc i) ..< m] ?s = c * (x ! (m - 1) - x ! 0)"
  proof (rule Suc.hyps(1))
    show "d = m - Suc (Suc i)" using Suc.hyps(2) by simp
    show "?s = c * (x ! Suc i - x ! 0)"
      by (simp add: Suc.prems(3) yi algebra_simps)
  qed (use Suc.prems lt in simp_all)
  then show ?case
    using lt by (simp add: upt_conv_Cons Let_def)
qed

lemma time_span_nth: "time \<noteq> [] \<Longrightarrow> time_span time = time ! (length time - 1) - time ! 0"
  by (simp add: time_span_def last_conv_nth hd_conv_nth)

lemma const_sq_nth:
  fixes a :: real
  assumes "\<forall>v \<in> set acceleration. v = a"
  shows "\<forall>j < length acceleration.
    map (\<lambda>a. a * a) (map (\<lambda>a. a / 100) acceleration) ! j = (a / 100) * (a / 100)"
  using assms by (auto dest: nth_mem)


text \<open>
  C8 (as the code has it). For an acceleration series that is constantly \<open>a\<close>
  (in cm/s/s, as both functions expect) over a time array spanning \<open>T\<close>, of the same
  length, \<open>processWithMatlab.js\<close> returns \<open>totalMeterUnits = (\<pi>/2g) (a/100) (a/100) T\<close>
  and \<open>total = (\<pi>/2g) a a T / 100\<close>, with \<open>g = 9.81\<close>; the analysis module returns the
  same \<open>ariasIntensity\<close> when there are at least two samples. Both are 0 for an
  all-zero series.
\<close>

theorem arias_constant_acceleration:
  assumes "length time = length acceleration"
      and "\<forall>v \<in> set acceleration. v = a"
  shows "(\<exists>r. sp_calculateAriasIntensity time acceleration = Inr r
           \<and> ar_totalMeterUnits r = (pi / (2 * 9.81)) * (a / 100)\<^sup>2 * time_span time
           \<and> ar_total r = (pi / (2 * 9.81)) * a\<^sup>2 * time_span time / 100
           \<and> (a = 0 \<longrightarrow> ar_total r = 0))
       \<and> (2 \<le> length time \<longrightarrow>
         (\<exists>r. an_calculateAriasIntensity 9.81 acceleration time = Inr r
           \<and> ariasIntensity r = (pi / (2 * 9.81)) * a\<^sup>2 * time_span time / 100
           \<and> (a = 0 \<longrightarrow> ariasIntensity r = 0)))"
proof (rule conjI)
  let ?sq = "map (\<lambda>a. a * a) (map (\<lambda>a. a / 100) acceleration)"
  let ?c = "(a / 100) * (a / 100)"
  let ?m = "length acceleration"
  have c: "\<forall>j < ?m. ?sq ! j = ?c"
    by (rule const_sq_nth [OF assms(2)])
  show "\<exists>r. sp_calculateAriasIntensity time acceleration = Inr r
           \<and> ar_totalMeterUnits r = (pi / (2 * 9.81)) * (a / 100)\<^sup>2 * time_span time
           \<and> ar_total r = (pi / (2 * 9.81)) * a\<^sup>2 * time_span time / 100
           \<and> (a = 0 \<longrightarrow> ar_total r = 0)"
  proof (cases "time = []")
    case True
    then show ?thesis using assms(1)
      by (simp add: sp_calculateAriasIntensity_def sp_cumtrapz_def time_span_def)
  next
    case False
    then have pos: "0 < ?m" using assms(1) by (cases acceleration) auto
    have l: "last (sp_cumtrapz_loop time ?sq [Suc 0 ..< ?m] [0])
               = ?c * (time ! (?m - 1) - time ! 0)"
      by (rule sp_cumtrapz_loop_const [OF c pos]) simp_all
    have len: "length (sp_cumtrapz_loop time ?sq [Suc 0 ..< ?m] [0]) = Suc (?m - 1)"
      using pos by (simp add: sp_cumtrapz_loop_length)
    have nth: "sp_cumtrapz_loop time ?sq [Suc 0 ..< ?m] [0] ! (?m - 1) = ?c * time_span time"
      using l last_by_length [OF len] time_span_nth [OF False] assms(1) by simp
    show ?thesis
      using nth assms(1) len
      by (auto simp add: sp_calculateAriasIntensity_def sp_cumtrapz_def Let_def
          gravitationalAccel_def power2_eq_square)
  qed
  show "2 \<le> length time \<longrightarrow>
         (\<exists>r. an_calculateAriasIntensity 9.81 acceleration time = Inr r
           \<and> ariasIntensity r = (pi / (2 * 9.81)) * a\<^sup>2 * time_span time / 100
           \<and> (a = 0 \<longrightarrow> ariasIntensity r = 0))"
  proof
    assume two: "2 \<le> length time"
    then have ne: "time \<noteq> []" and pos: "0 < ?m" using assms(1) by auto
    have t: "trapz_loop time ?sq [Suc 0 ..< ?m] 0 = ?c * time_span time"
      unfolding time_span_nth [OF ne] assms(1) by (rule trapz_loop_const [OF c pos]) simp
    show "\<exists>r. an_calculateAriasIntensity 9.81 acceleration time = Inr r
           \<and> ariasIntensity r = (pi / (2 * 9.81)) * a\<^sup>2 * time_span time / 100
           \<and> (a = 0 \<longrightarrow> ariasIntensity r = 0)"
      using t two assms(1)
      by (auto simp add: an_calculateAriasIntensity_def trapz_def cumtrapz_def Let_def
          power2_eq_square)
  qed
qed

theorem arias_constant_acceleration_witness:
  "(\<exists>r. sp_calculateAriasIntensity [0, 1, 3] [50, 50, 50] = Inr r
       \<and> ar_totalMeterUnits r = (pi / (2 * 9.81)) * (50 / 100)\<^sup>2 * 3
       \<and> ar_total r = (pi / (2 * 9.81)) * 50\<^sup>2 * 3 / 100)
   \<and> (\<exists>r. an_calculateAriasIntensity 9.81 [50, 50, 50] [0, 1, 3] = Inr r
       \<and> ariasIntensity r = (pi / (2 * 9.81)) * 50\<^sup>2 * 3 / 100)
   \<and> (\<exists>r. sp_calculateAriasIntensity [0, 1, 3] [0, 0, 0] = Inr r \<and> ar_total r = 0)"
  using arias_constant_acceleration [of "[0, 1, 3]" "[50, 50, 50]" 50]
        arias_constant_acceleration [of "[0, 1, 3]" "[0, 0, 0]" 0]
  by (auto simp add: time_span_def)

text \<open>
  C8, counterexample to the claim as stated: for \<open>a = 100\<close> cm/s/s over \<open>T = 1\<close> s the
  reported total is \<open>100 \<pi> / (2 g)\<close>, not \<open>(\<pi> / (2 g)) a a T\<close>.
\<close>

theorem arias_total_is_rescaled:
  "map_sum id ar_total (sp_calculateAriasIntensity [0, 1] [100, 100]) = Inr (100 * (pi / (2 * 9.81)))
   \<and> 100 * (pi / (2 * 9.81)) \<noteq> (pi / (2 * 9.81)) * 100\<^sup>2 * 1"
  by (simp add: sp_calculateAriasIntensity_def sp_cumtrapz_def gravitationalAccel_def
      upt_rec [of 1] Let_def)

section \<open>Properties of the FFT: lengths and failures\<close>

lemma pad_zeros_eq: "pad_zeros x t = x @ replicate (t - length x) (Complex 0 0)"
proof (induction x t rule: pad_zeros.induct)
  case (1 x t)
  show ?case
  proof (cases "length x < t")
    case True
    then have "t - length x = Suc (t - Suc (length x))" by simp
    with True 1 show ?thesis
      by (subst pad_zeros.simps) (simp add: replicate_app_Cons_same)
  next
    case False
    then show ?thesis by (subst pad_zeros.simps) simp
  qed
qed

lemma sp_pad_eq: "sp_pad x t = x @ replicate (t - length x) 0"
proof (induction x t rule: sp_pad.induct)
  case (1 x t)
  show ?case
  proof (cases "length x < t")
    case True
    then have "t - length x = Suc (t - Suc (length x))" by simp
    with True 1 show ?thesis
      by (subst sp_pad.simps) (simp add: replicate_app_Cons_same)
  next
    case False
    then show ?thesis by (subst sp_pad.simps) simp
  qed
qed

lemma next_pow2_ceillog2: "0 < n \<Longrightarrow> next_pow2 n = 2 ^ ceillog2 n"
  by (simp add: next_pow2_def ceillog2_def)

lemma next_pow2_ge: "0 < n \<Longrightarrow> n \<le> next_pow2 n"
  by (simp add: next_pow2_ceillog2 le_two_power_ceillog2)

lemma next_pow2_least: "0 < n \<Longrightarrow> n \<le> 2 ^ m \<Longrightarrow> next_pow2 n \<le> 2 ^ m"
  by (simp add: next_pow2_ceillog2 ceillog2_le_iff)

lemma next_pow2_power: "next_pow2 (2 ^ m) = 2 ^ m"
  by (simp add: next_pow2_ceillog2)

lemma next_pow2_eqI: "2 ^ m < n \<Longrightarrow> n \<le> 2 ^ Suc m \<Longrightarrow> next_pow2 n = 2 ^ Suc m"
proof -
  assume a: "2 ^ m < n" "n \<le> 2 ^ Suc m"
  then have "0 < n" by (cases n) auto
  moreover have "ceillog2 n = Suc m"
    by (rule ceillog2_eqI) (use a in auto)
  ultimately show ?thesis by (simp add: next_pow2_ceillog2)
qed

lemma fftCombine_loop_ok:
  "\<forall>k \<in> set ks. k < length oddFFT \<and> k < length evenFFT \<Longrightarrow>
     \<exists>pairs. fftCombine_loop n evenFFT oddFFT ks = Inr pairs \<and> length pairs = length ks"
  by (induction ks) (auto simp add: Let_def)

lemma fftCombine_loop_error:
  "fftCombine_loop n evenFFT oddFFT ks = Inl e \<Longrightarrow> e = TypeError"
  by (induction ks arbitrary: e) (auto simp add: Let_def split: if_splits sum.splits)

lemma fftCombine_loop_fail:
  "\<exists>k \<in> set ks. \<not> (k < length oddFFT \<and> k < length evenFFT) \<Longrightarrow>
     fftCombine_loop n evenFFT oddFFT ks = Inl TypeError"
  by (induction ks) (auto simp add: Let_def split: sum.splits dest: fftCombine_loop_error)

lemma fftCombine_even:
  assumes "even n" and "length evenFFT = n div 2" and "length oddFFT = n div 2"
  shows "\<exists>r. fftCombine n evenFFT oddFFT = Inr r \<and> length r = n"
proof -
  have "\<forall>k \<in> set [0 ..< (n + 1) div 2]. k < length oddFFT \<and> k < length evenFFT"
    using assms by auto
  from fftCombine_loop_ok [OF this, of n]
  obtain pairs where "fftCombine_loop n evenFFT oddFFT [0 ..< (n + 1) div 2] = Inr pairs"
    and "length pairs = (n + 1) div 2" by auto
  then show ?thesis using assms(1) by (auto simp add: fftCombine_def)
qed

lemma fftCombine_odd:
  assumes "odd n" and "length oddFFT = n div 2"
  shows "fftCombine n evenFFT oddFFT = Inl TypeError"
proof -
  have "n div 2 \<in> set [0 ..< (n + 1) div 2]" using assms(1) by (auto elim: oddE)
  then have "\<exists>k \<in> set [0 ..< (n + 1) div 2]. \<not> (k < length oddFFT \<and> k < length evenFFT)"
    using assms(2) by (intro bexI [of _ "n div 2"]) simp_all
  from fftCombine_loop_fail [OF this] show ?thesis by (simp add: fftCombine_def)
qed

lemma fftRecursive_result:
  "(\<forall>y. fftRecursive x = Inr y \<longrightarrow> length y = length x)
   \<and> (\<forall>e. fftRecursive x = Inl e \<longrightarrow> e = TypeError)"
proof (induction x rule: fftRecursive.induct)
  case (1 x)
  show ?case
  proof (cases "length x \<le> 1")
    case True
    then show ?thesis by (subst (1 2) fftRecursive.simps) simp
  next
    case False
    note big = this
    show ?thesis
    proof (cases "fftRecursive (evens x)")
      case (Inl e)
      with 1(1) [OF refl big] big show ?thesis
        by (subst (1 2) fftRecursive.simps) simp
    next
      case E: (Inr evenFFT)
      show ?thesis
      proof (cases "fftRecursive (odds x)")
        case (Inl e)
        with 1(2) [OF refl big E] big E show ?thesis
          by (subst (1 2) fftRecursive.simps) simp
      next
        case O: (Inr oddFFT)
        have lE: "length evenFFT = (length x + 1) div 2"
          using 1(1) [OF refl big] E by (simp add: length_evens)
        have lO: "length oddFFT = length x div 2"
          using 1(2) [OF refl big E] O by (simp add: length_odds)
        have eq: "fftRecursive x = fftCombine (length x) evenFFT oddFFT"
          using big E O by (subst fftRecursive.simps) simp
        show ?thesis
        proof (cases "even (length x)")
          case True
          then have "length evenFFT = length x div 2" using lE by auto
          from fftCombine_even [OF True this lO] show ?thesis by (auto simp add: eq)
        next
          case False
          from fftCombine_odd [OF False lO] show ?thesis by (simp add: eq)
        qed
      qed
    qed
  qed
qed

lemma fftRecursive_length: "fftRecursive x = Inr y \<Longrightarrow> length y = length x"
  using fftRecursive_result by blast

lemma fftRecursive_never_sparse: "fftRecursive x \<noteq> Inl SparseArray"
  using fftRecursive_result [of x] by auto

lemma fftRecursive_pow2_ok:
  "length x = 2 ^ m \<Longrightarrow> \<exists>y. fftRecursive x = Inr y \<and> length y = 2 ^ m"
proof (induction m arbitrary: x)
  case 0
  then show ?case by (subst fftRecursive.simps) simp
next
  case (Suc m)
  have big: "\<not> length x \<le> 1" using Suc.prems
    by (metis One_nat_def Suc_1 Suc_leI lessI not_less one_less_power zero_less_Suc less_le_trans)
  have "length (evens x) = 2 ^ m" "length (odds x) = 2 ^ m"
    using Suc.prems by (simp_all add: length_evens length_odds)
  with Suc.IH obtain ev od where E: "fftRecursive (evens x) = Inr ev" "length ev = 2 ^ m"
    and O: "fftRecursive (odds x) = Inr od" "length od = 2 ^ m" by blast
  have "even (length x)" using Suc.prems by simp
  from fftCombine_even [OF this, of ev od] E O Suc.prems
  obtain r where "fftCombine (length x) ev od = Inr r" "length r = length x" by auto
  then show ?case using big E O Suc.prems
    by (subst fftRecursive.simps) simp
qed

lemma fftRecursive_not_pow2:
  "2 \<le> length x \<Longrightarrow> \<forall>m. length x \<noteq> 2 ^ m \<Longrightarrow> fftRecursive x = Inl TypeError"
proof (induction x rule: fftRecursive.induct)
  case (1 x)
  then have big: "\<not> length x \<le> 1" by simp
  show ?case
  proof (cases "even (length x)")
    case True
    then obtain h where h: "length x = 2 * h" by (auto elim: evenE)
    have "2 \<le> h"
    proof (rule ccontr)
      assume "\<not> 2 \<le> h"
      then have "h = 0 \<or> h = 1" by auto
      then show False using h "1.prems" by (auto dest: spec [of _ 1])
    qed
    moreover have "\<forall>m. h \<noteq> 2 ^ m"
    proof
      fix m show "h \<noteq> 2 ^ m" using "1.prems"(2) h by (auto dest: spec [of _ "Suc m"])
    qed
    moreover have "length (evens x) = h" using h by (simp add: length_evens)
    ultimately have "fftRecursive (evens x) = Inl TypeError"
      using 1(1) [OF refl big] by simp
    then show ?thesis using big by (subst fftRecursive.simps) simp
  next
    case False
    show ?thesis
    proof (cases "fftRecursive (evens x)")
      case (Inl e)
      then have "e = TypeError" using fftRecursive_result by blast
      with Inl big show ?thesis by (subst fftRecursive.simps) simp
    next
      case E: (Inr evenFFT)
      show ?thesis
      proof (cases "fftRecursive (odds x)")
        case (Inl e)
        then have "e = TypeError" using fftRecursive_result by blast
        with Inl E big show ?thesis by (subst fftRecursive.simps) simp
      next
        case O: (Inr oddFFT)
        have "length oddFFT = length x div 2"
          using fftRecursive_length [OF O] by (simp add: length_odds)
        from fftCombine_odd [OF False this] E O big show ?thesis
          by (subst fftRecursive.simps) simp
      qed
    qed
  qed
qed

section \<open>Properties of the high-pass filter\<close>


lemma next_pow2_is_power: "0 < n \<Longrightarrow> \<exists>m. next_pow2 n = 2 ^ m"
  by (auto simp add: next_pow2_ceillog2)

lemma detrend_length: "length (detrend data) = length data"
  by (simp add: detrend_def Let_def)

lemma symmetrize_length: "length (symmetrize start n h) = length h"
proof -
  have "length (foldl (\<lambda>h i. h[i := h ! (n - i)]) h ks) = length h" for ks
    by (induction ks arbitrary: h) simp_all
  then show ?thesis by (simp add: symmetrize_def)
qed

lemma fft_length:
  "\<exists>y. fft signal = Inr y
       \<and> length y = (if length signal \<le> 1 then length signal else next_pow2 (length signal))"
proof (cases "length signal \<le> 1")
  case True
  then show ?thesis by (simp add: fft_def)
next
  case False
  then have pos: "0 < length signal" by (cases signal) auto
  let ?x = "map to_complex signal"
  let ?p = "if length signal \<noteq> next_pow2 (length signal)
            then pad_zeros ?x (next_pow2 (length signal)) else ?x"
  have len: "length ?p = next_pow2 (length signal)"
    using next_pow2_ge [OF pos] by (simp add: pad_zeros_eq)
  from next_pow2_is_power [OF pos] obtain m where m: "next_pow2 (length signal) = 2 ^ m" ..
  from fftRecursive_pow2_ok [of ?p m] len m
  obtain y where "fftRecursive ?p = Inr y" "length y = 2 ^ m" by auto
  then show ?thesis using False m by (auto simp add: fft_def Let_def split: if_splits)
qed

lemma sp_fft_length:
  "\<exists>y. sp_fft signal = Inr y
       \<and> length y = (if length signal \<le> 1 then length signal else next_pow2 (length signal))"
proof (cases "length signal \<le> 1")
  case True
  then show ?thesis by (simp add: sp_fft_def)
next
  case False
  then have pos: "0 < length signal" by (cases signal) auto
  let ?p = "map (\<lambda>x. Complex x 0) (sp_pad signal (next_pow2 (length signal)))"
  have len: "length ?p = next_pow2 (length signal)"
    using next_pow2_ge [OF pos] by (simp add: sp_pad_eq)
  from next_pow2_is_power [OF pos] obtain m where m: "next_pow2 (length signal) = 2 ^ m" ..
  from fftRecursive_pow2_ok [of ?p m] len m
  obtain y where "fftRecursive ?p = Inr y" "length y = 2 ^ m" by auto
  then show ?thesis using False m by (simp add: sp_fft_def Let_def)
qed

lemma ifft_length:
  assumes "length spectrum = 2 ^ m"
  shows "\<exists>y. ifft spectrum = Inr y \<and> length y = 2 ^ m"
proof -
  let ?c = "map Cx (map (\<lambda>c. Complex (Re c) (- Im c)) spectrum)"
  from fft_length [of ?c] obtain y where y: "fft ?c = Inr y"
    "length y = (if length ?c \<le> 1 then length ?c else next_pow2 (length ?c))" by blast
  have "length y = 2 ^ m" using y(2) assms by (simp add: next_pow2_power)
  then show ?thesis using y(1) by (simp add: ifft_def Let_def)
qed

lemma sp_ifft_length:
  assumes "length X = 2 ^ m"
  shows "\<exists>y. sp_ifft X = Inr y \<and> length y = 2 ^ m"
proof -
  let ?c = "map (\<lambda>x. Complex (Re x) (- Im x)) X"
  from fftRecursive_pow2_ok [of ?c m] assms
  obtain y where "fftRecursive ?c = Inr y" "length y = 2 ^ m" by auto
  then show ?thesis by (simp add: sp_ifft_def Let_def)
qed


text \<open>
  C3, for \<open>highPassFilter\<close> of \<open>utils.js\<close>: the filter never fails, and its output has
  the length of the padded transform, which exceeds the input length whenever that is
  not a power of two. The last step maps \<open>ifftResult\<close> to its real parts without
  slicing to \<open>data.length\<close>.
\<close>

theorem highPassFilter_output_length:
  "\<exists>r. highPassFilter data fs cornerFreq = Inr r
       \<and> length r = (if length data \<le> 1 then length data else next_pow2 (length data))"
proof -
  let ?n = "length data"
  let ?N = "if ?n \<le> 1 then ?n else next_pow2 ?n"
  from fft_length [of "map Num (detrend data)"]
  obtain fftData where f: "fft (map Num (detrend data)) = Inr fftData" "length fftData = ?N"
    by (auto simp add: detrend_length)
  let ?h = "if ?N mod 2 = 0
            then symmetrize (?N div 2 + 1) ?N
                   (map (\<lambda>f. if f \<ge> cornerFreq then 1 else 0) (map (\<lambda>i. real i * fs / real ?N) [0 ..< ?N]))
            else symmetrize (?N div 2 + 1) ?N
                   (map (\<lambda>f. if f \<ge> cornerFreq then 1 else 0) (map (\<lambda>i. real i * fs / real ?N) [0 ..< ?N]))"
  let ?filtered = "map (\<lambda>(i, c). Complex (Re c * ?h ! i) (Im c * ?h ! i)) (enumerate 0 fftData)"
  have lf: "length ?filtered = ?N" using f(2) by simp
  show ?thesis
  proof (cases "?n = 0")
    case True
    then show ?thesis
      by (simp add: highPassFilter_def detrend_def ifft_def fft_def)
  next
    case False
    have "\<exists>m. ?N = 2 ^ m"
    proof (cases "?n \<le> 1")
      case True
      with False have "?n = 2 ^ 0" by (cases data) auto
      with True show ?thesis by (intro exI [of _ 0]) simp
    next
      case False
      then show ?thesis using next_pow2_is_power [of ?n] by (cases data) auto
    qed
    then obtain m where m: "?N = 2 ^ m" ..
    from ifft_length [of ?filtered m] lf m
    obtain y where y: "ifft ?filtered = Inr y" "length y = 2 ^ m" by auto
    show ?thesis using f y m
      by (simp add: highPassFilter_def Let_def)
  qed
qed

theorem highPassFilter_output_length_witness:
  "\<exists>r. highPassFilter [1, 2, 4] 100 1 = Inr r \<and> length r = 4"
proof -
  have "next_pow2 (Suc (Suc (Suc 0))) = 4"
    using next_pow2_eqI [of 1 3] by (simp add: numeral_3_eq_3)
  then show ?thesis
    using highPassFilter_output_length [of "[1, 2, 4]" 100 1] by simp
qed

text \<open>
  \<open>SignalProcessor.highPassFilter\<close> of \<open>processWithMatlab.js\<close> does slice: its output
  has the length of the input.
\<close>

lemma sp_highPassFilter_output_length:
  "\<exists>r. sp_highPassFilter data fs cornerFreq = Inr r \<and> length r = length data"
proof -
  let ?n = "length data"
  let ?N = "if ?n \<le> 1 then ?n else next_pow2 ?n"
  from sp_fft_length [of "detrend data"]
  obtain fftData where f: "sp_fft (detrend data) = Inr fftData" "length fftData = ?N"
    by (auto simp add: detrend_length)
  let ?h = "symmetrize (?N div 2 + 1) ?N
              (map (\<lambda>f. if f \<ge> cornerFreq then 1 else 0) (map (\<lambda>i. real i * fs / real ?N) [0 ..< ?N]))"
  let ?filtered = "map (\<lambda>(i, c). Complex (Re c * ?h ! i) (Im c * ?h ! i)) (enumerate 0 fftData)"
  have lf: "length ?filtered = ?N" using f(2) by simp
  show ?thesis
  proof (cases "?n = 0")
    case True
    then show ?thesis
      by (simp add: sp_highPassFilter_def detrend_def sp_ifft_def sp_fft_def fftRecursive.simps)
  next
    case False
    then have pos: "0 < ?n" by simp
    have "\<exists>m. ?N = 2 ^ m"
    proof (cases "?n \<le> 1")
      case True
      with False have "?n = 2 ^ 0" by (cases data) auto
      with True show ?thesis by (intro exI [of _ 0]) simp
    next
      case False
      then show ?thesis using next_pow2_is_power [of ?n] by (cases data) auto
    qed
    then obtain m where m: "?N = 2 ^ m" ..
    have ge: "?n \<le> ?N" using next_pow2_ge [OF pos] by simp
    from sp_ifft_length [of ?filtered m] lf m
    obtain y where y: "sp_ifft ?filtered = Inr y" "length y = 2 ^ m" by auto
    show ?thesis using f y m ge
      by (simp add: sp_highPassFilter_def Let_def)
  qed
qed

section \<open>The transform of filters.js on other lengths\<close>

text \<open>
  C2, for \<open>fft\<close> of \<open>filters.js\<close>: on an input whose length is at least 2 and not a
  power of two it does not pad; the recursion reaches an odd length and throws a
  \<open>TypeError\<close>, so no transform is returned.
\<close>

theorem filters_fft_not_power_of_two:
  assumes "2 \<le> length x" and "\<forall>m. length x \<noteq> 2 ^ m"
  shows "filters_fft x = Inl TypeError"
  using assms by (simp add: filters_fft_def Let_def fftRecursive_not_pow2)

lemma three_not_power_of_two: "(3::nat) \<noteq> 2 ^ m"
proof (cases m)
  case 0
  then show ?thesis by simp
next
  case (Suc k)
  have "even ((2::nat) ^ Suc k)" by simp
  moreover have "odd (3::nat)" by simp
  ultimately show ?thesis using Suc by metis
qed

theorem filters_fft_not_power_of_two_witness:
  "filters_fft [1, 2, 3] = Inl TypeError"
  using filters_fft_not_power_of_two [of "[1, 2, 3]"] three_not_power_of_two
  by (simp add: numeral_3_eq_3)

text \<open>
  The transforms of \<open>utils.js\<close> and \<open>processWithMatlab.js\<close> on the same input pad
  to the next power of two.
\<close>

lemma fft_pads_three:
  "\<exists>y z. fft [Num 1, Num 2, Num 3] = Inr y \<and> length y = 4
       \<and> sp_fft [1, 2, 3] = Inr z \<and> length z = 4"
proof -
  have "next_pow2 (Suc (Suc (Suc 0))) = 4"
    using next_pow2_eqI [of 1 3] by (simp add: numeral_3_eq_3)
  then show ?thesis
    using fft_length [of "[Num 1, Num 2, Num 3]"] sp_fft_length [of "[1, 2, 3]"] by auto
qed

section \<open>Properties of the site frequency\<close>









section \<open>Properties of the response spectrum\<close>

lemma Fin_arith [simp]:
  "Fin x + Fin y = Fin (x + y)"
  "Fin x - Fin y = Fin (x - y)"
  "Fin x * Fin y = Fin (x * y)"
  "- Fin x = Fin (- x)"
  "\<bar>Fin x\<bar> = Fin \<bar>x\<bar>"
  "y \<noteq> 0 \<Longrightarrow> Fin x / Fin y = Fin (x / y)"
  by (simp_all add: plus_jsnum_def minus_jsnum_def times_jsnum_def uminus_jsnum_def
      abs_jsnum_def divide_jsnum_def)

lemma an_integrate_eq_newmarkBeta_loop:
  "an_integrate K m c keff acceleration js h = newmarkBeta_loop K m c keff acceleration js h"
proof (induction js arbitrary: h)
  case Nil
  show ?case by (cases h) simp
next
  case (Cons j js)
  obtain u v acc where h: "h = (u, v, acc)" by (cases h)
  show ?case unfolding h by (simp add: Let_def Cons.IH)
qed

lemma an_history_eq_newmarkBeta:
  "an_history (newmark_constants (Fin 0.25) (Fin 0.5) dt) acceleration zeta T =
     newmarkBeta acceleration dt (Fin 2 * Fin pi / T) zeta None None"
  by (simp add: an_history_def newmarkBeta_def an_keff_def Let_def
      an_integrate_eq_newmarkBeta_loop)

lemma sp_rows_length:
  "length (sp_SD (sp_calculateResponseSpectrum acceleration time z)) = length (period_grid 0.01)"
  "length (sp_PSV (sp_calculateResponseSpectrum acceleration time z)) = length (period_grid 0.01)"
  "length (sp_PSA (sp_calculateResponseSpectrum acceleration time z)) = length (period_grid 0.01)"
  by (simp_all add: sp_calculateResponseSpectrum_def Let_def)

lemma sp_row:
  assumes "i < length (period_grid 0.01)"
  shows "(sp_SD (sp_calculateResponseSpectrum acceleration time z) ! i,
          sp_PSV (sp_calculateResponseSpectrum acceleration time z) ! i,
          sp_PSA (sp_calculateResponseSpectrum acceleration time z) ! i)
         = sp_period (newmark_constants (Fin 0.25) (Fin 0.5) (sp_dt time)) acceleration z
             (Fin 1 / Fin (period_grid 0.01 ! i))"
  using assms by (simp add: sp_calculateResponseSpectrum_def Let_def split: prod.splits)

lemma an_row:
  assumes "i < length ps"
  shows "(an_SD (an_calculateResponseSpectra opt acceleration time (Some ps) damping) ! i,
          an_PSV (an_calculateResponseSpectra opt acceleration time (Some ps) damping) ! i,
          an_PSA (an_calculateResponseSpectra opt acceleration time (Some ps) damping) ! i)
         = an_period (newmark_constants (Fin 0.25) (Fin 0.5) (an_dt time)) acceleration
             (an_zeta opt damping) (ps ! i)"
  using assms by (simp add: an_calculateResponseSpectra_def Let_def split: prod.splits)

lemmas jsnum_ops = plus_jsnum_def minus_jsnum_def times_jsnum_def divide_jsnum_def
  uminus_jsnum_def abs_jsnum_def

text \<open>
  C6 (as the code has it). In \<open>processWithMatlab.js\<close> a period whose effective
  stiffness is zero or non-finite gets 0 for SD, PSV and PSA; in the analysis module a
  period whose effective stiffness is non-finite or at most 0 does. In both the sweep
  goes on: every output array has one entry per period.
\<close>

theorem spectrum_degenerate_keff_emits_zero:
  assumes "i < length (period_grid 0.01)"
      and "js_eq (sp_keff (newmark_constants (Fin 0.25) (Fin 0.5) (sp_dt time)) z
                   (Fin 1 / Fin (period_grid 0.01 ! i))) (Fin 0)
           \<or> \<not> isFinite (sp_keff (newmark_constants (Fin 0.25) (Fin 0.5) (sp_dt time)) z
                   (Fin 1 / Fin (period_grid 0.01 ! i)))"
      and "j < length ps"
      and "\<not> isFinite (an_keff (newmark_constants (Fin 0.25) (Fin 0.5) (an_dt time))
                        (an_zeta opt damping) (ps ! j))
           \<or> js_le (an_keff (newmark_constants (Fin 0.25) (Fin 0.5) (an_dt time))
                        (an_zeta opt damping) (ps ! j)) (Fin 0)"
  shows "sp_SD (sp_calculateResponseSpectrum acceleration time z) ! i = Fin 0
       \<and> sp_PSV (sp_calculateResponseSpectrum acceleration time z) ! i = Fin 0
       \<and> sp_PSA (sp_calculateResponseSpectrum acceleration time z) ! i = Fin 0
       \<and> length (sp_SD (sp_calculateResponseSpectrum acceleration time z))
           = length (period_grid 0.01)
       \<and> length (sp_PSV (sp_calculateResponseSpectrum acceleration time z))
           = length (period_grid 0.01)
       \<and> length (sp_PSA (sp_calculateResponseSpectrum acceleration time z))
           = length (period_grid 0.01)
       \<and> an_SD (an_calculateResponseSpectra opt acceleration time (Some ps) damping) ! j = Fin 0
       \<and> an_PSV (an_calculateResponseSpectra opt acceleration time (Some ps) damping) ! j = Fin 0
       \<and> an_PSA (an_calculateResponseSpectra opt acceleration time (Some ps) damping) ! j = Fin 0
       \<and> length (an_SD (an_calculateResponseSpectra opt acceleration time (Some ps) damping))
           = length ps
       \<and> length (an_PSV (an_calculateResponseSpectra opt acceleration time (Some ps) damping))
           = length ps
       \<and> length (an_PSA (an_calculateResponseSpectra opt acceleration time (Some ps) damping))
           = length ps"
proof -
  have sp: "(sp_SD (sp_calculateResponseSpectrum acceleration time z) ! i,
        sp_PSV (sp_calculateResponseSpectrum acceleration time z) ! i,
        sp_PSA (sp_calculateResponseSpectrum acceleration time z) ! i) = (Fin 0, Fin 0, Fin 0)"
    unfolding sp_row [OF assms(1)] using assms(2) by (auto simp add: sp_period_def Let_def)
  have an: "(an_SD (an_calculateResponseSpectra opt acceleration time (Some ps) damping) ! j,
        an_PSV (an_calculateResponseSpectra opt acceleration time (Some ps) damping) ! j,
        an_PSA (an_calculateResponseSpectra opt acceleration time (Some ps) damping) ! j)
      = (Fin 0, Fin 0, Fin 0)"
    unfolding an_row [OF assms(3)] using assms(4) by (auto simp add: an_period_def Let_def)
  have len: "length (an_SD (an_calculateResponseSpectra opt acceleration time (Some ps) damping))
           = length ps"
       "length (an_PSV (an_calculateResponseSpectra opt acceleration time (Some ps) damping))
           = length ps"
       "length (an_PSA (an_calculateResponseSpectra opt acceleration time (Some ps) damping))
           = length ps"
    by (simp_all add: an_calculateResponseSpectra_def Let_def)
  show ?thesis using sp an by (simp add: sp_rows_length len)
qed

lemma period_grid_first: "0 < length (period_grid 0.01)" "period_grid 0.01 ! 0 = 0.01"
  by (subst period_grid.simps, simp)+

lemma keff_zero_dt:
  "sp_keff (newmark_constants (Fin 0.25) (Fin 0.5) (sp_dt [Fin 0, Fin 0])) (Fin 0.05)
      (Fin 1 / Fin 0.01) = PInf"
  "an_keff (newmark_constants (Fin 0.25) (Fin 0.5) (an_dt [Fin 0, Fin 0]))
      (an_zeta (Fin 0.05) (Some (Fin 0.05))) (Fin 1) = PInf"
  by (simp_all add: sp_keff_def an_keff_def newmark_constants_def sp_dt_def an_dt_def an_zeta_def
      js_get_def jsnum_ops Let_def)

theorem spectrum_degenerate_keff_emits_zero_witness:
  "sp_SD (sp_calculateResponseSpectrum [Fin 0, Fin 1] [Fin 0, Fin 0] (Fin 0.05)) ! 0 = Fin 0
   \<and> sp_PSV (sp_calculateResponseSpectrum [Fin 0, Fin 1] [Fin 0, Fin 0] (Fin 0.05)) ! 0 = Fin 0
   \<and> sp_PSA (sp_calculateResponseSpectrum [Fin 0, Fin 1] [Fin 0, Fin 0] (Fin 0.05)) ! 0 = Fin 0
   \<and> an_SD (an_calculateResponseSpectra (Fin 0.05) [Fin 0, Fin 1] [Fin 0, Fin 0]
        (Some [Fin 1]) (Some (Fin 0.05))) ! 0 = Fin 0
   \<and> an_PSV (an_calculateResponseSpectra (Fin 0.05) [Fin 0, Fin 1] [Fin 0, Fin 0]
        (Some [Fin 1]) (Some (Fin 0.05))) ! 0 = Fin 0
   \<and> an_PSA (an_calculateResponseSpectra (Fin 0.05) [Fin 0, Fin 1] [Fin 0, Fin 0]
        (Some [Fin 1]) (Some (Fin 0.05))) ! 0 = Fin 0"
proof -
  have h2: "js_eq (sp_keff (newmark_constants (Fin 0.25) (Fin 0.5) (sp_dt [Fin 0, Fin 0]))
                   (Fin 0.05) (Fin 1 / Fin (period_grid 0.01 ! 0))) (Fin 0)
           \<or> \<not> isFinite (sp_keff (newmark_constants (Fin 0.25) (Fin 0.5) (sp_dt [Fin 0, Fin 0]))
                   (Fin 0.05) (Fin 1 / Fin (period_grid 0.01 ! 0)))"
    unfolding period_grid_first(2) keff_zero_dt(1) by simp
  have h3: "0 < length [Fin 1]" by simp
  have h4: "\<not> isFinite (an_keff (newmark_constants (Fin 0.25) (Fin 0.5) (an_dt [Fin 0, Fin 0]))
                        (an_zeta (Fin 0.05) (Some (Fin 0.05))) ([Fin 1] ! 0))
           \<or> js_le (an_keff (newmark_constants (Fin 0.25) (Fin 0.5) (an_dt [Fin 0, Fin 0]))
                        (an_zeta (Fin 0.05) (Some (Fin 0.05))) ([Fin 1] ! 0)) (Fin 0)"
    using keff_zero_dt(2) by simp
  from spectrum_degenerate_keff_emits_zero [OF period_grid_first(1) h2 h3 h4,
      of "[Fin 0, Fin 1]"]
  show ?thesis by blast
qed


lemma consts_unit_dt:
  "newmark_constants (Fin 0.25) (Fin 0.5) (Fin 1)
     = \<lparr> a0 = Fin 4, a1 = Fin 2, a2 = Fin 4, a3 = Fin 1, a4 = Fin 1, a5 = Fin 0 \<rparr>"
  by (simp add: newmark_constants_def)


lemma q_neg_negative: "q_neg < 0"
proof -
  have "pi * pi < 4 * 4"
    by (intro mult_strict_mono) (use pi_less_4 pi_gt_zero in simp_all)
  moreover have "2 \<le> pi" by (rule pi_ge_two)
  ultimately show ?thesis unfolding q_neg_def by simp
qed

lemma sp_keff_neg:
  "sp_keff \<lparr> a0 = Fin 4, a1 = Fin 2, a2 = Fin 4, a3 = Fin 1, a4 = Fin 1, a5 = Fin 0 \<rparr>
     (Fin (- 1000)) (Fin 1 / Fin 0.01) = Fin q_neg"
  by (simp add: sp_keff_def q_neg_def Let_def)

lemma an_keff_neg:
  "an_keff \<lparr> a0 = Fin 4, a1 = Fin 2, a2 = Fin 4, a3 = Fin 1, a4 = Fin 1, a5 = Fin 0 \<rparr>
     (Fin (- 1000)) (Fin 0.01) = Fin q_neg"
  by (simp add: an_keff_def q_neg_def Let_def)

lemma sp_integrate_one_step:
  "q \<noteq> 0 \<Longrightarrow>
   sp_integrate \<lparr> a0 = Fin 4, a1 = Fin 2, a2 = Fin 4, a3 = Fin 1, a4 = Fin 1, a5 = Fin 0 \<rparr>
     (Fin 1) (Fin cc) (Fin q) [Fin 0, Fin 1] [1] ([Fin 0, Fin 0], [Fin 0, Fin 0], [Fin 0, Fin 0])
   = ([Fin 0, Fin (- 1 / q)], [Fin 0, Fin (- 2 / q)], [Fin 0, Fin (- 4 / q)])"
  by (simp add: zero_history_def Let_def numeral_2_eq_2)

lemma newmarkBeta_loop_one_step:
  "q \<noteq> 0 \<Longrightarrow>
   newmarkBeta_loop \<lparr> a0 = Fin 4, a1 = Fin 2, a2 = Fin 4, a3 = Fin 1, a4 = Fin 1, a5 = Fin 0 \<rparr>
     (Fin 1) (Fin cc) (Fin q) [Fin 0, Fin 1] [1] ([Fin 0, Fin 0], [Fin 0, Fin 0], [Fin 0, Fin 0])
   = ([Fin 0, Fin (- 1 / q)], [Fin 0, Fin (- 2 / q)], [Fin 0, Fin (- 4 / q)])"
  by (simp add: zero_history_def Let_def numeral_2_eq_2)

lemma two_steps_differ:
  "q \<noteq> 0 \<Longrightarrow>
   sp_integrate \<lparr> a0 = Fin 4, a1 = Fin 2, a2 = Fin 4, a3 = Fin 1, a4 = Fin 1, a5 = Fin 0 \<rparr>
     (Fin 1) (Fin cc) (Fin q) [Fin 0, Fin 1, Fin 1] [1, 2] ([Fin 0, Fin 0, Fin 0], [Fin 0, Fin 0, Fin 0], [Fin 0, Fin 0, Fin 0])
   \<noteq> newmarkBeta_loop \<lparr> a0 = Fin 4, a1 = Fin 2, a2 = Fin 4, a3 = Fin 1, a4 = Fin 1, a5 = Fin 0 \<rparr>
     (Fin 1) (Fin cc) (Fin q) [Fin 0, Fin 1, Fin 1] [1, 2] ([Fin 0, Fin 0, Fin 0], [Fin 0, Fin 0, Fin 0], [Fin 0, Fin 0, Fin 0])"
  by (simp add: zero_history_def Let_def numeral_3_eq_3 field_simps)

lemma unit_dt: "sp_dt [Fin 0, Fin 1] = Fin 1" "an_dt [Fin 0, Fin 1] = Fin 1"
  by (simp_all add: sp_dt_def an_dt_def js_get_def)

lemma peak_of_one_step:
  "q \<noteq> 0 \<Longrightarrow> Math_max (map abs [Fin 0, Fin (- 1 / q)]) = Fin \<bar>1 / q\<bar>"
  by (simp add: Math_max_def)

lemma sp_period_neg:
  "sp_period \<lparr> a0 = Fin 4, a1 = Fin 2, a2 = Fin 4, a3 = Fin 1, a4 = Fin 1, a5 = Fin 0 \<rparr>
     [Fin 0, Fin 1] (Fin (- 1000)) (Fin 1 / Fin 0.01)
   = peaks ([Fin 0, Fin (- 1 / q_neg)], [Fin 0, Fin (- 2 / q_neg)], [Fin 0, Fin (- 4 / q_neg)])"
proof -
  have q: "q_neg \<noteq> 0" using q_neg_negative by simp
  have "[1 ..< length [Fin 0, Fin 1]] = [1]" by (simp add: upt_rec)
  then have "sp_history \<lparr> a0 = Fin 4, a1 = Fin 2, a2 = Fin 4, a3 = Fin 1, a4 = Fin 1, a5 = Fin 0 \<rparr>
     [Fin 0, Fin 1] (Fin (- 1000)) (Fin 1 / Fin 0.01)
     = ([Fin 0, Fin (- 1 / q_neg)], [Fin 0, Fin (- 2 / q_neg)], [Fin 0, Fin (- 4 / q_neg)])"
    unfolding sp_history_def sp_keff_neg Let_def
    using sp_integrate_one_step [OF q] by (simp add: zero_history_def)
  then show ?thesis
    unfolding sp_period_def sp_keff_neg Let_def using q by (simp add: js_eq_def)
qed

text \<open>
  C6, counterexample to the claim as stated: with damping ratio \<open>-1000\<close> and unit time
  step the effective stiffness at the first period is negative, and
  \<open>processWithMatlab.js\<close> integrates that period and stores a non-zero SD.
\<close>

theorem spectrum_negative_keff_not_zeroed:
  "js_le (sp_keff (newmark_constants (Fin 0.25) (Fin 0.5) (sp_dt [Fin 0, Fin 1])) (Fin (- 1000))
            (Fin 1 / Fin (period_grid 0.01 ! 0))) (Fin 0)
   \<and> sp_SD (sp_calculateResponseSpectrum [Fin 0, Fin 1] [Fin 0, Fin 1] (Fin (- 1000))) ! 0 \<noteq> Fin 0"
proof -
  have q: "q_neg \<noteq> 0" "q_neg \<le> 0" using q_neg_negative by simp_all
  have row: "(sp_SD (sp_calculateResponseSpectrum [Fin 0, Fin 1] [Fin 0, Fin 1] (Fin (- 1000))) ! 0,
        sp_PSV (sp_calculateResponseSpectrum [Fin 0, Fin 1] [Fin 0, Fin 1] (Fin (- 1000))) ! 0,
        sp_PSA (sp_calculateResponseSpectrum [Fin 0, Fin 1] [Fin 0, Fin 1] (Fin (- 1000))) ! 0)
      = peaks ([Fin 0, Fin (- 1 / q_neg)], [Fin 0, Fin (- 2 / q_neg)], [Fin 0, Fin (- 4 / q_neg)])"
    unfolding sp_row [OF period_grid_first(1)] unit_dt consts_unit_dt period_grid_first(2)
    by (rule sp_period_neg)
  have "sp_SD (sp_calculateResponseSpectrum [Fin 0, Fin 1] [Fin 0, Fin 1] (Fin (- 1000))) ! 0
      = Fin \<bar>1 / q_neg\<bar>"
    using row peak_of_one_step [OF q(1)] by (simp add: peaks_def)
  moreover have "js_le (sp_keff (newmark_constants (Fin 0.25) (Fin 0.5) (sp_dt [Fin 0, Fin 1]))
            (Fin (- 1000)) (Fin 1 / Fin (period_grid 0.01 ! 0))) (Fin 0)"
    unfolding unit_dt consts_unit_dt period_grid_first(2) sp_keff_neg using q(2) by simp
  ultimately show ?thesis using q(1) by simp
qed


text \<open>
  C4 (as the code has it). For a period that the analysis module does not skip (finite,
  positive effective stiffness), its displacement, velocity and acceleration histories
  are those of \<open>newmarkBeta\<close> of \<open>utils.js\<close> called with \<open>omega = 2 \<pi> / T\<close>, the same
  time step and the damping ratio the module resolved, and SD, PSV, PSA are their
  peaks. 
\<close>

theorem newmark_analysis_matches_newmarkBeta:
  assumes "j < length ps"
      and "isFinite (an_keff (newmark_constants (Fin 0.25) (Fin 0.5) (an_dt time))
                       (an_zeta opt damping) (ps ! j))"
      and "\<not> js_le (an_keff (newmark_constants (Fin 0.25) (Fin 0.5) (an_dt time))
                       (an_zeta opt damping) (ps ! j)) (Fin 0)"
  shows "an_history (newmark_constants (Fin 0.25) (Fin 0.5) (an_dt time)) acceleration
           (an_zeta opt damping) (ps ! j)
         = newmarkBeta acceleration (an_dt time) (Fin 2 * Fin pi / ps ! j)
             (an_zeta opt damping) None None
       \<and> (an_SD (an_calculateResponseSpectra opt acceleration time (Some ps) damping) ! j,
          an_PSV (an_calculateResponseSpectra opt acceleration time (Some ps) damping) ! j,
          an_PSA (an_calculateResponseSpectra opt acceleration time (Some ps) damping) ! j)
         = peaks (newmarkBeta acceleration (an_dt time) (Fin 2 * Fin pi / ps ! j)
             (an_zeta opt damping) None None)"
proof -
  let ?keff = "an_keff (newmark_constants (Fin 0.25) (Fin 0.5) (an_dt time))
                       (an_zeta opt damping) (ps ! j)"
  have kept: "\<not> (\<not> isFinite ?keff \<or> js_le ?keff (Fin 0))"
    using assms(2,3) by blast
  show ?thesis
    unfolding an_row [OF assms(1)] an_period_def Let_def an_history_eq_newmarkBeta
    by (simp only: kept if_False simp_thms)
qed

lemma an_keff_unit:
  "an_keff \<lparr> a0 = Fin 4, a1 = Fin 2, a2 = Fin 4, a3 = Fin 1, a4 = Fin 1, a5 = Fin 0 \<rparr>
     (Fin 0.05) (Fin 1) = Fin (4 * pi * pi + 4 + 0.4 * pi)"
  by (simp add: an_keff_def Let_def)

theorem newmark_analysis_matches_newmarkBeta_witness:
  "an_history (newmark_constants (Fin 0.25) (Fin 0.5) (an_dt [Fin 0, Fin 1])) [Fin 0, Fin 1, Fin 1]
           (an_zeta (Fin 0.05) (Some (Fin 0.05))) ([Fin 1] ! 0)
         = newmarkBeta [Fin 0, Fin 1, Fin 1] (an_dt [Fin 0, Fin 1]) (Fin 2 * Fin pi / [Fin 1] ! 0)
             (an_zeta (Fin 0.05) (Some (Fin 0.05))) None None
   \<and> (an_SD (an_calculateResponseSpectra (Fin 0.05) [Fin 0, Fin 1, Fin 1] [Fin 0, Fin 1]
             (Some [Fin 1]) (Some (Fin 0.05))) ! 0,
      an_PSV (an_calculateResponseSpectra (Fin 0.05) [Fin 0, Fin 1, Fin 1] [Fin 0, Fin 1]
             (Some [Fin 1]) (Some (Fin 0.05))) ! 0,
      an_PSA (an_calculateResponseSpectra (Fin 0.05) [Fin 0, Fin 1, Fin 1] [Fin 0, Fin 1]
             (Some [Fin 1]) (Some (Fin 0.05))) ! 0)
     = peaks (newmarkBeta [Fin 0, Fin 1, Fin 1] (an_dt [Fin 0, Fin 1]) (Fin 2 * Fin pi / [Fin 1] ! 0)
             (an_zeta (Fin 0.05) (Some (Fin 0.05))) None None)"
proof -
  have z: "an_zeta (Fin 0.05) (Some (Fin 0.05)) = Fin 0.05" by (simp add: an_zeta_def)
  have pos: "0 < 4 * pi * pi + 4 + 0.4 * pi"
    by (intro add_pos_pos add_nonneg_pos mult_pos_pos) simp_all
  have h1: "0 < length [Fin 1]" by simp
  have h2: "isFinite (an_keff (newmark_constants (Fin 0.25) (Fin 0.5) (an_dt [Fin 0, Fin 1]))
                       (an_zeta (Fin 0.05) (Some (Fin 0.05))) ([Fin 1] ! 0))"
    unfolding unit_dt consts_unit_dt z nth_Cons_0 an_keff_unit by simp
  have h3: "\<not> js_le (an_keff (newmark_constants (Fin 0.25) (Fin 0.5) (an_dt [Fin 0, Fin 1]))
                       (an_zeta (Fin 0.05) (Some (Fin 0.05))) ([Fin 1] ! 0)) (Fin 0)"
    unfolding unit_dt consts_unit_dt z nth_Cons_0 an_keff_unit using pos by simp
  show ?thesis
    by (rule newmark_analysis_matches_newmarkBeta [OF h1 h2 h3])
qed

lemma an_period_neg:
  "an_period \<lparr> a0 = Fin 4, a1 = Fin 2, a2 = Fin 4, a3 = Fin 1, a4 = Fin 1, a5 = Fin 0 \<rparr>
     [Fin 0, Fin 1] (Fin (- 1000)) (Fin 0.01) = (Fin 0, Fin 0, Fin 0)"
  unfolding an_period_def an_keff_neg Let_def using q_neg_negative by simp

lemma newmarkBeta_neg:
  "newmarkBeta [Fin 0, Fin 1] (Fin 1) (Fin 2 * Fin pi / Fin 0.01) (Fin (- 1000)) None None
   = ([Fin 0, Fin (- 1 / q_neg)], [Fin 0, Fin (- 2 / q_neg)], [Fin 0, Fin (- 4 / q_neg)])"
proof -
  have q: "q_neg \<noteq> 0" using q_neg_negative by simp
  have c: "newmark_constants (Fin (1 / 4)) (Fin (1 / 2)) (Fin 1)
     = \<lparr> a0 = Fin 4, a1 = Fin 2, a2 = Fin 4, a3 = Fin 1, a4 = Fin 1, a5 = Fin 0 \<rparr>"
    using consts_unit_dt by simp
  have k: "Fin 1 * (Fin 2 * Fin pi / Fin 0.01) * (Fin 2 * Fin pi / Fin 0.01) + Fin 4 * Fin 1
           + Fin 2 * (Fin 2 * Fin (- 1000) * Fin 1 * (Fin 2 * Fin pi / Fin 0.01)) = Fin q_neg"
    by (simp add: q_neg_def)
  have "[1 ..< length [Fin 0, Fin (1::real)]] = [1]" by (simp add: upt_rec)
  then show ?thesis
    unfolding newmarkBeta_def Let_def option.case c newmark_consts.simps k
    using newmarkBeta_loop_one_step [OF q] by (simp add: zero_history_def)
qed


lemma q_pos_positive: "0 < q_pos"
  unfolding q_pos_def by (intro add_pos_pos add_nonneg_pos mult_pos_pos) simp_all

lemma upt_1_3: "[1 ..< length [x, y, z]] = [1, 2]"
  by (simp add: upt_rec)

lemma sp_history_pos:
  "sp_history \<lparr> a0 = Fin 4, a1 = Fin 2, a2 = Fin 4, a3 = Fin 1, a4 = Fin 1, a5 = Fin 0 \<rparr>
     [Fin 0, Fin 1, Fin 1] (Fin 0.05) (Fin 1 / Fin 0.01)
   = sp_integrate \<lparr> a0 = Fin 4, a1 = Fin 2, a2 = Fin 4, a3 = Fin 1, a4 = Fin 1, a5 = Fin 0 \<rparr>
       (Fin 1) (Fin (20 * pi)) (Fin q_pos) [Fin 0, Fin 1, Fin 1] [1, 2]
       ([Fin 0, Fin 0, Fin 0], [Fin 0, Fin 0, Fin 0], [Fin 0, Fin 0, Fin 0])"
proof -
  have k: "sp_keff \<lparr> a0 = Fin 4, a1 = Fin 2, a2 = Fin 4, a3 = Fin 1, a4 = Fin 1, a5 = Fin 0 \<rparr>
     (Fin 0.05) (Fin 1 / Fin 0.01) = Fin q_pos"
    by (simp add: sp_keff_def q_pos_def Let_def)
  have c: "Fin 2 * Fin 0.05 * Fin 1 * (Fin 2 * Fin pi * (Fin 1 / Fin 0.01)) = Fin (20 * pi)"
    by simp
  have z: "zero_history (length [Fin 0, Fin 1, Fin (1::real)])
     = ([Fin 0, Fin 0, Fin 0], [Fin 0, Fin 0, Fin 0], [Fin 0, Fin 0, Fin 0])"
    by (simp add: zero_history_def numeral_3_eq_3)
  show ?thesis
    unfolding sp_history_def Let_def k c upt_1_3 z ..
qed

lemma newmarkBeta_pos:
  "newmarkBeta [Fin 0, Fin 1, Fin 1] (Fin 1) (Fin 2 * Fin pi / Fin 0.01) (Fin 0.05) None None
   = newmarkBeta_loop \<lparr> a0 = Fin 4, a1 = Fin 2, a2 = Fin 4, a3 = Fin 1, a4 = Fin 1, a5 = Fin 0 \<rparr>
       (Fin 1) (Fin (20 * pi)) (Fin q_pos) [Fin 0, Fin 1, Fin 1] [1, 2]
       ([Fin 0, Fin 0, Fin 0], [Fin 0, Fin 0, Fin 0], [Fin 0, Fin 0, Fin 0])"
proof -
  have K: "newmark_constants (Fin (1 / 4)) (Fin (1 / 2)) (Fin 1)
     = \<lparr> a0 = Fin 4, a1 = Fin 2, a2 = Fin 4, a3 = Fin 1, a4 = Fin 1, a5 = Fin 0 \<rparr>"
    using consts_unit_dt by simp
  have c: "Fin 2 * Fin 0.05 * Fin 1 * (Fin 2 * Fin pi / Fin 0.01) = Fin (20 * pi)"
    by simp
  have k: "Fin 1 * (Fin 2 * Fin pi / Fin 0.01) * (Fin 2 * Fin pi / Fin 0.01) + Fin 4 * Fin 1
           + Fin 2 * Fin (20 * pi) = Fin q_pos"
    by (simp add: q_pos_def)
  have z: "zero_history (length [Fin 0, Fin 1, Fin (1::real)])
     = ([Fin 0, Fin 0, Fin 0], [Fin 0, Fin 0, Fin 0], [Fin 0, Fin 0, Fin 0])"
    by (simp add: zero_history_def numeral_3_eq_3)
  show ?thesis
    unfolding newmarkBeta_def Let_def option.case K newmark_consts.simps c k upt_1_3 z ..
qed

text \<open>
  C4, counterexample to the claim as stated. For the ground acceleration \<open>[0, 1, 1]\<close>,
  unit time step, damping ratio 0.05 and the first period of the grid, the histories of
  \<open>processWithMatlab.js\<close> differ from those of \<open>newmarkBeta\<close>: its velocity update is
  \<open>a1 du - a4 u - a2 v - a5 a\<close> where \<open>newmarkBeta\<close> and the analysis module have
  \<open>a1 (du - u) - a4 v - a5 acc\<close>. And with damping ratio \<open>-1000\<close> the analysis module
  skips the first period (SD is 0) while \<open>newmarkBeta\<close>, which has no guard, integrates it.
\<close>

theorem newmark_copies_differ:
  "sp_history (newmark_constants (Fin 0.25) (Fin 0.5) (sp_dt [Fin 0, Fin 1]))
       [Fin 0, Fin 1, Fin 1] (Fin 0.05) (Fin 1 / Fin (period_grid 0.01 ! 0))
     \<noteq> newmarkBeta [Fin 0, Fin 1, Fin 1] (sp_dt [Fin 0, Fin 1])
         (Fin 2 * Fin pi / Fin (period_grid 0.01 ! 0)) (Fin 0.05) None None
   \<and> an_SD (an_calculateResponseSpectra (Fin 0.05) [Fin 0, Fin 1] [Fin 0, Fin 1]
         (Some [Fin 0.01]) (Some (Fin (- 1000)))) ! 0 = Fin 0
   \<and> fst (peaks (newmarkBeta [Fin 0, Fin 1] (an_dt [Fin 0, Fin 1])
         (Fin 2 * Fin pi / Fin 0.01) (Fin (- 1000)) None None)) \<noteq> Fin 0"
proof (intro conjI)
  have q: "q_pos \<noteq> 0" using q_pos_positive by simp
  show "sp_history (newmark_constants (Fin 0.25) (Fin 0.5) (sp_dt [Fin 0, Fin 1]))
       [Fin 0, Fin 1, Fin 1] (Fin 0.05) (Fin 1 / Fin (period_grid 0.01 ! 0))
     \<noteq> newmarkBeta [Fin 0, Fin 1, Fin 1] (sp_dt [Fin 0, Fin 1])
         (Fin 2 * Fin pi / Fin (period_grid 0.01 ! 0)) (Fin 0.05) None None"
    unfolding unit_dt consts_unit_dt period_grid_first(2) sp_history_pos newmarkBeta_pos
    by (rule two_steps_differ [OF q])
next
  have z: "an_zeta (Fin 0.05) (Some (Fin (- 1000))) = Fin (- 1000)"
    by (simp add: an_zeta_def)
  have "(an_SD (an_calculateResponseSpectra (Fin 0.05) [Fin 0, Fin 1] [Fin 0, Fin 1]
            (Some [Fin 0.01]) (Some (Fin (- 1000)))) ! 0,
         an_PSV (an_calculateResponseSpectra (Fin 0.05) [Fin 0, Fin 1] [Fin 0, Fin 1]
            (Some [Fin 0.01]) (Some (Fin (- 1000)))) ! 0,
         an_PSA (an_calculateResponseSpectra (Fin 0.05) [Fin 0, Fin 1] [Fin 0, Fin 1]
            (Some [Fin 0.01]) (Some (Fin (- 1000)))) ! 0) = (Fin 0, Fin 0, Fin 0)"
    by (subst an_row) (simp_all only: unit_dt consts_unit_dt z nth_Cons_0 an_period_neg
        length_Cons list.size zero_less_Suc)
  then show "an_SD (an_calculateResponseSpectra (Fin 0.05) [Fin 0, Fin 1] [Fin 0, Fin 1]
         (Some [Fin 0.01]) (Some (Fin (- 1000)))) ! 0 = Fin 0"
    by simp
next
  have q: "q_neg \<noteq> 0" using q_neg_negative by simp
  show "fst (peaks (newmarkBeta [Fin 0, Fin 1] (an_dt [Fin 0, Fin 1])
         (Fin 2 * Fin pi / Fin 0.01) (Fin (- 1000)) None None)) \<noteq> Fin 0"
    unfolding unit_dt newmarkBeta_neg peaks_def using peak_of_one_step [OF q] q by simp
qed

section \<open>The transform computed by the FFT\<close>






















section \<open>The site frequency and the transform\<close>




lemma next_pow2_three: "next_pow2 (Suc (Suc (Suc 0))) = 4"
  using next_pow2_eqI [of 1 3] by (simp add: numeral_3_eq_3)

lemma upt_4: "[0 ..< 4] = [0, 1, 2, 3::nat]"
  by (simp add: upt_rec)

lemma twiddle_4_1: "twiddle 4 (Suc 0) = Complex 0 (- 1)"
proof -
  have "- 2 * pi * real (Suc 0) / real 4 = - (pi / 2)" by simp
  then show ?thesis unfolding twiddle_def Let_def
    by (simp only: cos_minus sin_minus cos_pi_half sin_pi_half)
qed

lemma fftRecursive_single: "fftRecursive [a] = Inr [a]"
  by (subst fftRecursive.simps) simp

lemma fftRecursive_two:
  "fftRecursive [a, b] = Inr [complexAdd a (complexMultiply (Complex 1 0) b),
                              complexSubtract a (complexMultiply (Complex 1 0) b)]"
  by (subst fftRecursive.simps) (simp add: fftRecursive_single fftCombine_def twiddle_def Let_def)

lemma fftRecursive_four:
  "fftRecursive [Complex a 0, Complex b 0, Complex c 0, Complex d 0] =
     Inr [Complex (a + c + (b + d)) 0, Complex (a - c) (- (b - d)),
          Complex (a + c - (b + d)) 0, Complex (a - c) (b - d)]"
  by (subst fftRecursive.simps)
     (simp add: fftRecursive_two fftCombine_def twiddle_4_1 upt_rec
        complexAdd_def complexSubtract_def complexMultiply_def twiddle_def)


lemma sp_fft_three:
  "sp_fft [a, b, c] =
     Inr [Complex (a + c + b) 0, Complex (a - c) (- b),
          Complex (a + c - b) 0, Complex (a - c) b]"
  using fftRecursive_four [of a b c 0]
  by (simp add: sp_fft_def next_pow2_three sp_pad.simps)


text \<open>
  The copy in \<open>gui/earthquakeAnalysis.js\<close> takes \<open>N\<close> from the input, whose transform
  is padded all the same. On the three samples \<open>[1, 0, -1]\<close> the transform has the four
  bins \<open>[0, 2, 0, 2]\<close>: \<open>processWithMatlab.js\<close> searches two of them and reports bin 1
  at \<open>fs / 4\<close>, the copy searches only bin 0 and reports frequency 0.
\<close>


lemma gui_findSiteFrequency_input_length:
  "map_sum id frequency (sp_findSiteFrequency [1, 0, - 1] 100) = Inr (Number (Fin 25))
   \<and> map_sum id gui_frequency (gui_findSiteFrequency [1, 0, - 1] 100) = Inr (Number (Fin 0))
   \<and> map_sum id gui_frequencies (gui_findSiteFrequency [1, 0, - 1] 100) = Inr [Fin 0]"
  by (simp add: sp_findSiteFrequency_def gui_findSiteFrequency_def sp_fft_three indexOf_def
      Math_max_def js_eq_def js_get_def Let_def upt_rec numeral_3_eq_3)

section \<open>Properties of the FFT in double precision\<close>

text \<open>
  Rounding a number whose magnitude lies between two consecutive powers of two.
\<close>

lemma to_double_eval:
  assumes "2 powr of_int k \<le> \<bar>x\<bar>" and "\<bar>x\<bar> < 2 powr of_int (k + 1)"
  shows "to_double x =
     (let e = max (k - 52) (- 1074);
          r = of_int (round_half_even (x / 2 powr of_int e)) * 2 powr of_int e
      in if 2 ^ 1024 \<le> \<bar>r\<bar> then js_signed_inf (0 < x) else Fin r)"
proof -
  have "0 < 2 powr real_of_int k" by simp
  with assms(1) have pos: "0 < \<bar>x\<bar>" by linarith
  then have nz: "x \<noteq> 0" by auto
  have "\<lfloor>log 2 \<bar>x\<bar>\<rfloor> = k"
    using assms floor_log_eq_powr_iff [OF pos, of 2 k] by simp
  with nz show ?thesis by (simp add: to_double_def)
qed

lemma to_double_large:
  assumes "2 ^ (52 + n) \<le> \<bar>x\<bar>" and "\<bar>x\<bar> < 2 ^ (53 + n)"
  shows "to_double x =
     (let r = of_int (round_half_even (x / 2 ^ n)) * 2 ^ n
      in if 2 ^ 1024 \<le> \<bar>r\<bar> then js_signed_inf (0 < x) else Fin r)"
proof -
  have a: "2 powr of_int (int (52 + n)) \<le> \<bar>x\<bar>"
    using assms(1) by (simp only: powr_realpow zero_less_numeral of_int_of_nat_eq)
  have "int (52 + n) + 1 = int (53 + n)" by simp
  then have b: "\<bar>x\<bar> < 2 powr of_int (int (52 + n) + 1)"
    using assms(2) by (simp only: powr_realpow zero_less_numeral of_int_of_nat_eq)
  have e: "max (int (52 + n) - 52) (- 1074) = int n" by simp
  show ?thesis
    unfolding to_double_eval [OF a b] e
    by (simp add: Let_def powr_realpow)
qed

lemma to_double_small:
  assumes "2 ^ k \<le> \<bar>x\<bar>" and "\<bar>x\<bar> < 2 ^ (k + 1)" and "k \<le> 52"
  shows "to_double x =
     (let r = of_int (round_half_even (x * 2 ^ (52 - k))) / 2 ^ (52 - k)
      in if 2 ^ 1024 \<le> \<bar>r\<bar> then js_signed_inf (0 < x) else Fin r)"
proof -
  have a: "2 powr of_int (int k) \<le> \<bar>x\<bar>"
    using assms(1) by (simp only: powr_realpow zero_less_numeral of_int_of_nat_eq)
  have "int k + 1 = int (k + 1)" by simp
  then have b: "\<bar>x\<bar> < 2 powr of_int (int k + 1)"
    using assms(2) by (simp only: powr_realpow zero_less_numeral of_int_of_nat_eq)
  have e: "max (int k - 52) (- 1074) = - int (52 - k)" using assms(3) by simp
  have p: "(2::real) powr - real (52 - k) = 1 / 2 ^ (52 - k)"
    by (simp add: powr_minus powr_realpow divide_inverse)
  have p2: "y / 2 powr of_int (- int (52 - k)) = y * 2 ^ (52 - k)" for y :: real
    by (simp add: p)
  have p3: "y * 2 powr of_int (- int (52 - k)) = y / 2 ^ (52 - k)" for y :: real
    by (simp add: p)
  show ?thesis
    unfolding to_double_eval [OF a b] Let_def e p2 p3 ..
qed

lemma to_double_1: "to_double 1 = Fin 1"
  using to_double_small [of 0 1] by (simp add: round_half_even_def)

lemma to_double_two_pi: "to_double (- 2 * (7074237752028440 / 2 ^ 51)) = Fin (- (7074237752028440 / 2 ^ 50))"
  using to_double_small [of 2 "- 2 * (7074237752028440 / 2 ^ 51)"]
  by (simp add: round_half_even_def)






lemma to_double_0: "to_double 0 = Fin 0"
  by (simp add: to_double_def)

lemma minus_two_pi: "mul_double (Fin (- 2)) Math_PI = Fin (- (7074237752028440 / 2 ^ 50))"
  by (simp only: mul_double_def Math_PI_def times_jsnum_def js_mul.simps dbl.simps
      to_double_two_pi)

lemma twiddle_double_zero: "0 < n \<Longrightarrow> twiddle_double n 0 = DComplex (Fin 1) (Fin 0)"
  unfolding twiddle_double_def minus_two_pi
  by (simp add: mul_double_def div_double_def times_jsnum_def divide_jsnum_def
      to_double_0 to_double_1)

lemmas double_ops = add_double_def sub_double_def mul_double_def div_double_def
  plus_jsnum_def minus_jsnum_def times_jsnum_def divide_jsnum_def uminus_jsnum_def

lemma fftRecursive_double_single: "fftRecursive_double [a] = Inr [a]"
  by (subst fftRecursive_double.simps) simp

lemma fftRecursive_double_pair:
  "fftRecursive_double [a, b] =
     Inr [complexAdd_double a (complexMultiply_double (DComplex (Fin 1) (Fin 0)) b),
          complexSubtract_double a (complexMultiply_double (DComplex (Fin 1) (Fin 0)) b)]"
  by (subst fftRecursive_double.simps)
     (simp add: fftRecursive_double_single fftCombine_double_def twiddle_double_zero Let_def)

lemma next_pow2_two: "next_pow2 (Suc (Suc 0)) = 2"
  using next_pow2_power [of 1] by (simp add: numeral_2_eq_2)


text \<open>
  A sum that leaves the range of the doubles is an infinity: the round trip of
  \<open>[2 ^ 1023, 2 ^ 1023]\<close>, two finite doubles, is \<open>[Infinity, Infinity]\<close>.
\<close>

lemma to_double_max_power: "to_double (2 ^ 1023) = Fin (2 ^ 1023)"
  using to_double_large [of 971 "2 ^ 1023"] by (simp add: round_half_even_def)

lemma to_double_overflow: "to_double (2 ^ 1024) = PInf"
  using to_double_large [of 972 "2 ^ 1024"] by (simp add: round_half_even_def)

lemma fft_double_overflow:
  "dbl (Fin (2 ^ 1023)) = Fin (2 ^ 1023)
   \<and> fft_double [DNum (Fin (2 ^ 1023)), DNum (Fin (2 ^ 1023))]
       = Inr [DComplex PInf (Fin 0), DComplex (Fin 0) (Fin 0)]
   \<and> ifft_double [DComplex PInf (Fin 0), DComplex (Fin 0) (Fin 0)]
       = Inr [DComplex PInf (Fin 0), DComplex PInf (Fin 0)]"
proof -
  have "2 * (2::real) ^ 1023 = 2 ^ 1024" by simp
  then have s: "to_double (2 * 2 ^ 1023) = PInf" by (simp only: to_double_overflow)
  show ?thesis
    by (simp add: fft_double_def ifft_double_def next_pow2_two fftRecursive_double_pair
      complexAdd_double_def complexSubtract_double_def complexMultiply_double_def double_ops
      to_double_0 to_double_1 to_double_max_power s del: power_numeral)
qed








end
